theory Spec2Isabelle
  imports Complex_Main
begin

section \<open>The CoinGecko service of cointop (pkg/api/impl/coingecko/coingecko.go)\<close>

text \<open>
  The Go file implements the service that resolves coin names to provider identifiers,
  fetches pages of market data and normalises them. The packages it calls are not part
  of the sources at hand: the vendored provider client (\<open>gecko\<close>), the formatting helpers
  (\<open>util\<close>) and the record types (\<open>apitypes\<close>, \<open>geckoTypes\<close>). The client and the helpers are
  taken as parameters of every function below, so each theorem holds for whatever they
  compute; the record types carry the fields the Go file reads and writes.

  Go strings are byte sequences, modelled as \<open>string\<close>. A \<open>float64\<close> is a value of a type
  \<open>'f\<close> with a zero: the Go file only stores such values, hands them to the helpers and
  compares one of them with \<open>0\<close>.
\<close>

subsection \<open>The standard library functions used (package strings)\<close>

text \<open>
  \<open>strings.ToLower\<close> and \<open>strings.TrimSpace\<close> work on the Unicode code points of a
  string: the first maps every upper-case letter of Unicode, the second removes every
  white space of Unicode at both ends. They are taken as parameters, like the helpers of
  \<open>util\<close>, so each theorem below holds for the functions of Go; what a theorem needs of
  them is stated in it as an equation between keys.
\<close>

record strings_pkg =
  ToLower :: "string \<Rightarrow> string"
  TrimSpace :: "string \<Rightarrow> string"

text \<open>
  \<open>strings.Split(s, sep)\<close> for a separator of one byte, which Go searches byte by
  byte: the pieces between the occurrences of the separator, so that a string without
  separator gives one piece and the empty string gives one empty piece.
\<close>

fun Split :: "string \<Rightarrow> char \<Rightarrow> string list" where
  "Split [] sep = [[]]"
| "Split (c # cs) sep =
     (if c = sep then [] # Split cs sep
      else (case Split cs sep of
              [] \<Rightarrow> [[c]]
            | w # ws \<Rightarrow> (c # w) # ws))"

subsection \<open>Data\<close>

text \<open>
  The error values of the package. \<open>ErrPingFailed\<close> and \<open>ErrNotFound\<close> are its two
  variables; an error that comes back from the provider client is another value: the
  client package is imported by this one, cannot refer to these variables, and
  \<open>errors.New\<close> gives a value equal to no other. The client's errors are therefore a type
  of their own, wrapped by \<open>ClientError\<close>.
\<close>

type_synonym client_error = string

datatype error = ErrPingFailed | ErrNotFound | ClientError client_error

text \<open>An entry of the provider catalog (\<open>CoinsList\<close>): the three fields read.\<close>

record CoinsListItem =
  cl_ID :: string
  cl_Symbol :: string
  cl_Name :: string

text \<open>
  The helpers of package \<open>util\<close> that the file calls, as parameters. None of them
  returns an error in the Go file's calls.
\<close>

record 'f util =
  NameToSlug :: "string \<Rightarrow> string"
  FormatID :: "string \<Rightarrow> string"
  FormatName :: "string \<Rightarrow> string"
  FormatSymbol :: "string \<Rightarrow> string"
  FormatRank :: "int \<Rightarrow> int"
  FormatSupply :: "'f \<Rightarrow> 'f"
  FormatMarketCap :: "'f \<Rightarrow> 'f"
  FormatPrice :: "'f \<Rightarrow> string \<Rightarrow> 'f"
  FormatPercentChange :: "'f \<Rightarrow> 'f"
  FormatVolume :: "'f \<Rightarrow> 'f"
  FormatLastUpdated :: "string \<Rightarrow> string"

text \<open>
  The service. \<open>cacheMap\<close> is the \<open>sync.Map\<close>; the only values ever stored in it
  are strings (\<open>item.ID\<close> and \<open>parts[1]\<close> of \<open>cacheCoinsIDList\<close>), so the type assertion
  \<open>id.(string)\<close> of \<open>coinNameToID\<close> cannot fail and the map is a map from strings to strings.
\<close>

record Service =
  maxResultsPerPage :: int
  maxPages :: int
  cacheMap :: "string \<rightharpoonup> string"

text \<open>
  A record of the provider's market list (\<open>CoinsMarket\<close>), with the fields read. The four
  percent changes are pointers in Go: \<open>None\<close> is \<open>nil\<close>.
\<close>

record 'f CoinsMarketItem =
  mk_ID :: string
  mk_Symbol :: string
  mk_Name :: string
  mk_CurrentPrice :: 'f
  mk_MarketCap :: 'f
  mk_MarketCapRank :: int
  mk_TotalVolume :: 'f
  mk_CirculatingSupply :: 'f
  mk_TotalSupply :: 'f
  mk_LastUpdated :: string
  mk_PriceChangePercentage1hInCurrency :: "'f option"
  mk_PriceChangePercentage24hInCurrency :: "'f option"
  mk_PriceChangePercentage7dInCurrency :: "'f option"
  mk_PriceChangePercentage30dInCurrency :: "'f option"

text \<open>The normalised record (\<open>apitypes.Coin\<close>), with the fields written.\<close>

record 'f Coin =
  ID :: string
  Name :: string
  Symbol :: string
  Rank :: int
  AvailableSupply :: 'f
  TotalSupply :: 'f
  MarketCap :: 'f
  Price :: 'f
  PercentChange1H :: 'f
  PercentChange24H :: 'f
  PercentChange7D :: 'f
  PercentChange30D :: 'f
  Volume24H :: 'f
  LastUpdated :: string

text \<open>The constants of \<open>geckoTypes\<close> named in the request, by their Go names.\<close>

datatype OrderType = MarketCapDesc

datatype PriceChangePercentage = PCP1h | PCP24h | PCP7d | PCP30d

text \<open>The arguments of \<open>s.client.CoinsMarket\<close>, in their order.\<close>

record MarketRequest =
  rq_vsCurrency :: string
  rq_ids :: "string list"
  rq_order :: OrderType
  rq_perPage :: int
  rq_page :: int
  rq_sparkline :: bool
  rq_priceChangePercentage :: "PriceChangePercentage list"

text \<open>
  The provider client: what each of its calls returns, an error or a pointer to the
  result (\<open>None\<close> is the \<open>nil\<close> pointer). An entry of the simple price list maps
  currencies to prices.
\<close>

record 'f Client =
  CoinsList :: "client_error + CoinsListItem list option"
  CoinsMarket :: "MarketRequest \<Rightarrow> client_error + 'f CoinsMarketItem list option"
  SimplePrice :: "string list \<Rightarrow> string list \<Rightarrow> client_error + (string \<rightharpoonup> 'f) list option"

subsection \<open>Building the resolution table: cacheCoinsIDList\<close>

text \<open>The body of \<open>if !exists { s.cacheMap.Store(key, id) }\<close>.\<close>

definition storeIfAbsent :: "(string \<rightharpoonup> string) \<Rightarrow> string \<Rightarrow> string \<Rightarrow> (string \<rightharpoonup> string)" where
  "storeIfAbsent m key v = (case m key of None \<Rightarrow> m(key \<mapsto> v) | Some _ \<Rightarrow> m)"

text \<open>
  What one iteration of the first loop computes from its item before it touches the map:
  the slice \<open>keys\<close> and the pairs it appends to \<open>firstWords\<close>.
\<close>

definition catalogItem :: "strings_pkg \<Rightarrow> 'f util \<Rightarrow> CoinsListItem \<Rightarrow> string list \<times> (string \<times> string) list" where
  "catalogItem L u item =
     (let keys = [ToLower L (cl_Name item), ToLower L (cl_Symbol item), NameToSlug u (cl_Name item)];
          parts = Split (ToLower L (cl_Name item)) CHR '' ''
      in if length parts > 1 then
           (if parts ! 1 = ''coin'' then (keys @ [parts ! 0], [])
            else (keys, [(parts ! 0, cl_ID item)]))
         else (keys, []))"

text \<open>The inner loop \<open>for _, key := range keys\<close>.\<close>

fun storeKeys :: "(string \<rightharpoonup> string) \<Rightarrow> string list \<Rightarrow> string \<Rightarrow> (string \<rightharpoonup> string)" where
  "storeKeys m [] v = m"
| "storeKeys m (key # keys) v = storeKeys (storeIfAbsent m key v) keys v"

text \<open>The first loop, over the catalog, with the map and \<open>firstWords\<close> as its state.\<close>

fun catalogPass ::
  "strings_pkg \<Rightarrow> 'f util \<Rightarrow> CoinsListItem list \<Rightarrow> (string \<rightharpoonup> string) \<Rightarrow> (string \<times> string) list
     \<Rightarrow> (string \<rightharpoonup> string) \<times> (string \<times> string) list" where
  "catalogPass L u [] m firstWords = (m, firstWords)"
| "catalogPass L u (item # rest) m firstWords =
     (case catalogItem L u item of
        (keys, fw) \<Rightarrow> catalogPass L u rest (storeKeys m keys (cl_ID item)) (firstWords @ fw))"

text \<open>The second loop, over \<open>firstWords\<close>.\<close>

fun commitFirstWords :: "(string \<rightharpoonup> string) \<Rightarrow> (string \<times> string) list \<Rightarrow> (string \<rightharpoonup> string)" where
  "commitFirstWords m [] = m"
| "commitFirstWords m (parts # rest) = commitFirstWords (storeIfAbsent m (fst parts) (snd parts)) rest"

text \<open>
  The two loops on a catalog. \<open>cacheCoinsIDList\<close> runs them on the list the client
  returns; it returns the client's error, and leaves the map alone, when there is no list.
\<close>

definition buildTable :: "strings_pkg \<Rightarrow> 'f util \<Rightarrow> CoinsListItem list \<Rightarrow> (string \<rightharpoonup> string) \<Rightarrow> (string \<rightharpoonup> string)" where
  "buildTable L u list m = (case catalogPass L u list m [] of (m', firstWords) \<Rightarrow> commitFirstWords m' firstWords)"

definition cacheCoinsIDList :: "strings_pkg \<Rightarrow> 'f util \<Rightarrow> 'f Client \<Rightarrow> Service \<Rightarrow> Service \<times> error option" where
  "cacheCoinsIDList L u client s =
     (case CoinsList client of
        Inl err \<Rightarrow> (s, Some (ClientError err))
      | Inr None \<Rightarrow> (s, None)
      | Inr (Some list) \<Rightarrow> (s\<lparr>cacheMap := buildTable L u list (cacheMap s)\<rparr>, None))"

text \<open>\<open>coinNameToID\<close>: the lookup, and the slug of the name as it was given on a miss.\<close>

definition coinNameToID :: "strings_pkg \<Rightarrow> 'f util \<Rightarrow> Service \<Rightarrow> string \<Rightarrow> string" where
  "coinNameToID L u s name =
     (case cacheMap s (ToLower L (TrimSpace L name)) of
        Some v \<Rightarrow> v
      | None \<Rightarrow> NameToSlug u name)"

subsection \<open>Fetching and normalising a page: getPaginatedCoinData\<close>

text \<open>
  The request of \<open>getPaginatedCoinData\<close>: the page is the offset plus one, the currency is
  lower-cased and \<open>usd\<close> when empty, every name goes through \<open>coinNameToID\<close>. (The offsets
  passed are \<open>0\<close> and the loop index below \<open>maxPages\<close>, so the sum does not overflow Go's
  \<open>int\<close>.)
\<close>

definition marketRequest :: "strings_pkg \<Rightarrow> 'f util \<Rightarrow> Service \<Rightarrow> string \<Rightarrow> int \<Rightarrow> string list \<Rightarrow> MarketRequest" where
  "marketRequest L u s convert offset names =
     (let page = offset + 1;
          sparkline = False;
          priceChangePercentage = [PCP1h, PCP24h, PCP7d, PCP30d];
          order = MarketCapDesc;
          convertTo = ToLower L convert;
          convertTo = (if convertTo = [] then ''usd'' else convertTo);
          ids = map (coinNameToID L u s) names
      in \<lparr>rq_vsCurrency = convertTo, rq_ids = ids, rq_order = order,
          rq_perPage = maxResultsPerPage s, rq_page = page, rq_sparkline = sparkline,
          rq_priceChangePercentage = priceChangePercentage\<rparr>)"

text \<open>The body of the loop over the list: one provider record to one \<open>Coin\<close>.\<close>

definition normalizeItem :: "('f::zero) util \<Rightarrow> string \<Rightarrow> 'f CoinsMarketItem \<Rightarrow> 'f Coin" where
  "normalizeItem u convert item =
     (let price = mk_CurrentPrice item;
          percentChange1H = (case mk_PriceChangePercentage1hInCurrency item of None \<Rightarrow> 0 | Some p \<Rightarrow> p);
          percentChange24H = (case mk_PriceChangePercentage24hInCurrency item of None \<Rightarrow> 0 | Some p \<Rightarrow> p);
          percentChange7D = (case mk_PriceChangePercentage7dInCurrency item of None \<Rightarrow> 0 | Some p \<Rightarrow> p);
          percentChange30D = (case mk_PriceChangePercentage30dInCurrency item of None \<Rightarrow> 0 | Some p \<Rightarrow> p);
          availableSupply = mk_CirculatingSupply item;
          totalSupply = mk_TotalSupply item;
          totalSupply = (if totalSupply = 0 then availableSupply else totalSupply)
      in \<lparr>ID = FormatID u (mk_ID item),
          Name = FormatName u (mk_Name item),
          Symbol = FormatSymbol u (mk_Symbol item),
          Rank = FormatRank u (mk_MarketCapRank item),
          AvailableSupply = FormatSupply u availableSupply,
          TotalSupply = FormatSupply u totalSupply,
          MarketCap = FormatMarketCap u (mk_MarketCap item),
          Price = FormatPrice u price convert,
          PercentChange1H = FormatPercentChange u percentChange1H,
          PercentChange24H = FormatPercentChange u percentChange24H,
          PercentChange7D = FormatPercentChange u percentChange7D,
          PercentChange30D = FormatPercentChange u percentChange30D,
          Volume24H = FormatVolume u (mk_TotalVolume item),
          LastUpdated = FormatLastUpdated u (mk_LastUpdated item)\<rparr>)"

text \<open>
  \<open>getPaginatedCoinData\<close>: the client's error, or the normalised list; a \<open>nil\<close> list
  from the client gives the \<open>nil\<close> slice, which is the empty list here.
\<close>

definition getPaginatedCoinData ::
  "strings_pkg \<Rightarrow> ('f::zero) util \<Rightarrow> Service \<Rightarrow> 'f Client \<Rightarrow> string \<Rightarrow> int \<Rightarrow> string list \<Rightarrow> error + 'f Coin list" where
  "getPaginatedCoinData L u s client convert offset names =
     (case CoinsMarket client (marketRequest L u s convert offset names) of
        Inl err \<Rightarrow> Inl (ClientError err)
      | Inr None \<Rightarrow> Inr []
      | Inr (Some list) \<Rightarrow> Inr (map (normalizeItem u convert) list))"

subsection \<open>The streaming fetch: GetAllCoinData\<close>

text \<open>
  What the goroutine of \<open>GetAllCoinData\<close> does, as the sequence of its effects: a pause
  (\<open>time.Sleep\<close>, in seconds), a call of the client (the request that
  \<open>getPaginatedCoinData\<close> sends), a batch sent on the channel, the closing of the channel.
  The channel carries batches of coins only. A send is taken to complete: the goroutine
  is followed as long as its batches are received.
\<close>

datatype 'f event = Sleep nat | Request MarketRequest | Emit "'f Coin list" | Close

text \<open>
  The loop \<open>for i := 0; i < s.maxPages; i++\<close> from index \<open>i\<close> on, with the deferred
  \<open>close(ch)\<close> as the last effect on both exits: the \<open>return\<close> on an error and the end of
  the loop.
\<close>

function GetAllCoinData_loop ::
  "strings_pkg \<Rightarrow> ('f::zero) util \<Rightarrow> Service \<Rightarrow> 'f Client \<Rightarrow> string \<Rightarrow> int \<Rightarrow> 'f event list" where
  "GetAllCoinData_loop L u s client convert i =
     (if i < maxPages s then
        (if i > 0 then [Sleep 1] else []) @
        Request (marketRequest L u s convert i []) #
        (case getPaginatedCoinData L u s client convert i [] of
           Inl err \<Rightarrow> [Close]
         | Inr coins \<Rightarrow> Emit coins # GetAllCoinData_loop L u s client convert (i + 1))
      else [Close])"
  by pat_completeness auto
termination
  by (relation "measure (\<lambda>(L, u, s, client, convert, i). nat (maxPages s - i))") auto

text \<open>
  \<open>GetAllCoinData\<close> starts the goroutine and returns \<open>nil\<close>: the value returned, and the
  effects of the goroutine it started.
\<close>

definition GetAllCoinData ::
  "strings_pkg \<Rightarrow> ('f::zero) util \<Rightarrow> Service \<Rightarrow> 'f Client \<Rightarrow> string \<Rightarrow> error option \<times> 'f event list" where
  "GetAllCoinData L u s client convert = (None, GetAllCoinData_loop L u s client convert 0)"

subsection \<open>The targeted calls: GetCoinData and Price\<close>

text \<open>The zero value \<open>apitypes.Coin{}\<close>.\<close>

definition zeroCoin :: "('f::zero) Coin" where
  "zeroCoin =
     \<lparr>ID = [], Name = [], Symbol = [], Rank = 0, AvailableSupply = 0, TotalSupply = 0,
      MarketCap = 0, Price = 0, PercentChange1H = 0, PercentChange24H = 0, PercentChange7D = 0,
      PercentChange30D = 0, Volume24H = 0, LastUpdated = []\<rparr>"

definition GetCoinData ::
  "strings_pkg \<Rightarrow> ('f::zero) util \<Rightarrow> Service \<Rightarrow> 'f Client \<Rightarrow> string \<Rightarrow> string \<Rightarrow> 'f Coin \<times> error option" where
  "GetCoinData L u s client name convert =
     (let ret = zeroCoin;
          ids = [name]
      in case getPaginatedCoinData L u s client convert 0 ids of
           Inl err \<Rightarrow> (ret, Some err)
         | Inr coins \<Rightarrow> (if length coins > 0 then (coins ! 0, None) else (ret, None)))"

text \<open>
  The loop of \<open>Price\<close> over the price list, in the order in which \<open>range\<close> visits it: the
  first entry that has the currency decides.
\<close>

fun Price_loop :: "('f::zero) util \<Rightarrow> string \<Rightarrow> (string \<rightharpoonup> 'f) list \<Rightarrow> 'f \<times> error option" where
  "Price_loop u convert [] = (0, Some ErrNotFound)"
| "Price_loop u convert (item # rest) =
     (case item convert of
        Some p \<Rightarrow> (FormatPrice u p convert, None)
      | None \<Rightarrow> Price_loop u convert rest)"

text \<open>
  \<open>Price\<close> dereferences the pointer to the price list without a test, so a \<open>nil\<close>
  pointer returned without an error is a panic: the result \<open>None\<close>. From here on the
  name \<open>Price\<close> is the method; the field of \<open>Coin\<close> is written \<open>Coin.Price\<close> where it is
  read, and \<open>c\<lparr>Price := p\<rparr>\<close> still updates the field.
\<close>

definition Price ::
  "strings_pkg \<Rightarrow> ('f::zero) util \<Rightarrow> Service \<Rightarrow> 'f Client \<Rightarrow> string \<Rightarrow> string \<Rightarrow> ('f \<times> error option) option" where
  "Price L u s client name convert =
     (let ids = [coinNameToID L u s name];
          convert = ToLower L convert;
          currencies = [convert]
      in case SimplePrice client ids currencies of
           Inl err \<Rightarrow> Some (0, Some (ClientError err))
         | Inr None \<Rightarrow> None
         | Inr (Some priceList) \<Rightarrow> Some (Price_loop u convert priceList))"

subsection \<open>The constructor: NewCoinGecko\<close>

text \<open>The service starts with an empty map and fills it; the error of the fill is dropped.\<close>

definition NewCoinGecko :: "strings_pkg \<Rightarrow> 'f util \<Rightarrow> 'f Client \<Rightarrow> Service" where
  "NewCoinGecko L u client =
     (let svc = \<lparr>maxResultsPerPage = 250, maxPages = 10, cacheMap = Map.empty\<rparr>
      in fst (cacheCoinsIDList L u client svc))"

subsection \<open>Notions used in the statements\<close>

text \<open>The keys of an item and the first words it defers, the two halves of \<open>catalogItem\<close>.\<close>

definition itemKeys :: "strings_pkg \<Rightarrow> 'f util \<Rightarrow> CoinsListItem \<Rightarrow> string list" where
  "itemKeys L u item = fst (catalogItem L u item)"

definition itemFirstWords :: "strings_pkg \<Rightarrow> 'f util \<Rightarrow> CoinsListItem \<Rightarrow> (string \<times> string) list" where
  "itemFirstWords L u item = snd (catalogItem L u item)"

text \<open>The batches sent and the requests made, read off the effects of the goroutine.\<close>

fun emitted :: "'f event list \<Rightarrow> 'f Coin list list" where
  "emitted [] = []"
| "emitted (Emit coins # es) = coins # emitted es"
| "emitted (e # es) = emitted es"

fun requested :: "'f event list \<Rightarrow> MarketRequest list" where
  "requested [] = []"
| "requested (Request req # es) = req # requested es"
| "requested (e # es) = requested es"

text \<open>
  The effects of one round of the loop of \<open>GetAllCoinData\<close> in which the page is fetched:
  the pause, except in the first round, the request, and the batch sent.
\<close>

definition pageEffects :: "strings_pkg \<Rightarrow> ('f::zero) util \<Rightarrow> Service \<Rightarrow> string \<Rightarrow> (int \<Rightarrow> 'f Coin list) \<Rightarrow> int \<Rightarrow> 'f event list" where
  "pageEffects L u s convert batch j =
     (if j > 0 then [Sleep 1] else []) @ [Request (marketRequest L u s convert j []), Emit (batch j)]"

subsection \<open>Sample inputs\<close>

text \<open>
  The two parameters of package \<open>strings\<close> for the sample inputs, which are ASCII
  strings: there \<open>strings.ToLower\<close> maps \<open>A..Z\<close> to \<open>a..z\<close> and keeps every other
  byte, and \<open>strings.TrimSpace\<close> removes tab, line feed, vertical tab, form feed,
  carriage return and space at both ends.
\<close>

definition asciiToLower_char :: "char \<Rightarrow> char" where
  "asciiToLower_char c =
     (case map_of (zip ''ABCDEFGHIJKLMNOPQRSTUVWXYZ'' ''abcdefghijklmnopqrstuvwxyz'') c of
        Some l \<Rightarrow> l
      | None \<Rightarrow> c)"

definition asciiToLower :: "string \<Rightarrow> string" where
  "asciiToLower s = map asciiToLower_char s"

definition asciiSpace :: "char \<Rightarrow> bool" where
  "asciiSpace c \<longleftrightarrow> c \<in> set [CHR 0x09, CHR 0x0A, CHR 0x0B, CHR 0x0C, CHR 0x0D, CHR '' '']"

definition asciiTrimSpace :: "string \<Rightarrow> string" where
  "asciiTrimSpace s = rev (dropWhile asciiSpace (rev (dropWhile asciiSpace s)))"

definition asciiStrings :: strings_pkg where
  "asciiStrings = \<lparr>ToLower = asciiToLower, TrimSpace = asciiTrimSpace\<rparr>"

text \<open>
  Modelled from the spec: \<open>util.NameToSlug\<close>, which is not among the sources, for the
  sample inputs only: "lower-case, non-alphanumeric replaced with separators".
\<close>

definition isAlnum :: "char \<Rightarrow> bool" where
  "isAlnum c \<longleftrightarrow> c \<in> set ''abcdefghijklmnopqrstuvwxyzABCDEFGHIJKLMNOPQRSTUVWXYZ0123456789''"

definition slugOf :: "string \<Rightarrow> string" where
  "slugOf name = map (\<lambda>c. if isAlnum c then c else CHR ''-'') (asciiToLower name)"

text \<open>Helpers that pass every value through, with that slug.\<close>

definition plainUtil :: "real util" where
  "plainUtil =
     \<lparr>NameToSlug = slugOf, FormatID = (\<lambda>x. x), FormatName = (\<lambda>x. x), FormatSymbol = (\<lambda>x. x),
      FormatRank = (\<lambda>x. x), FormatSupply = (\<lambda>x. x), FormatMarketCap = (\<lambda>x. x),
      FormatPrice = (\<lambda>p c. p), FormatPercentChange = (\<lambda>x. x), FormatVolume = (\<lambda>x. x),
      FormatLastUpdated = (\<lambda>x. x)\<rparr>"

text \<open>A client that knows a catalog and has neither market data nor prices.\<close>

definition catalogClient :: "CoinsListItem list \<Rightarrow> real Client" where
  "catalogClient list =
     \<lparr>CoinsList = Inr (Some list), CoinsMarket = (\<lambda>req. Inr None), SimplePrice = (\<lambda>ids cs. Inr (Some []))\<rparr>"

definition bitcoinCash :: CoinsListItem where
  "bitcoinCash = \<lparr>cl_ID = ''bitcoin-cash'', cl_Symbol = ''bch'', cl_Name = ''Bitcoin Cash''\<rparr>"

definition bitcoin :: CoinsListItem where
  "bitcoin = \<lparr>cl_ID = ''bitcoin'', cl_Symbol = ''btc'', cl_Name = ''Bitcoin''\<rparr>"

definition simpleCoin :: CoinsListItem where
  "simpleCoin = \<lparr>cl_ID = ''simple-coin'', cl_Symbol = ''smp'', cl_Name = ''Simple Coin''\<rparr>"

text \<open>A later entry with the symbol of Bitcoin in capitals.\<close>

definition bitcoinGold :: CoinsListItem where
  "bitcoinGold = \<lparr>cl_ID = ''bitcoin-gold'', cl_Symbol = ''BTC'', cl_Name = ''Bitcoin Gold''\<rparr>"

text \<open>An entry whose name ends in a space.\<close>

definition bitcoinPadded :: CoinsListItem where
  "bitcoinPadded = \<lparr>cl_ID = ''bitcoin-2'', cl_Symbol = ''btc2'', cl_Name = ''Bitcoin ''\<rparr>"

text \<open>
  A provider record without total supply and without the changes over seven and thirty
  days.
\<close>

definition sampleItem :: "real CoinsMarketItem" where
  "sampleItem =
     \<lparr>mk_ID = ''bitcoin'', mk_Symbol = ''btc'', mk_Name = ''Bitcoin'', mk_CurrentPrice = 9000.5,
      mk_MarketCap = 1000000, mk_MarketCapRank = 1, mk_TotalVolume = 5000,
      mk_CirculatingSupply = 1000, mk_TotalSupply = 0, mk_LastUpdated = ''2020-01-01T00:00:00Z'',
      mk_PriceChangePercentage1hInCurrency = Some 0.5,
      mk_PriceChangePercentage24hInCurrency = Some (- 1),
      mk_PriceChangePercentage7dInCurrency = None,
      mk_PriceChangePercentage30dInCurrency = None\<rparr>"

text \<open>
  A client whose market list has one record on every page, ranked by the page, and that
  fails on the page \<open>failPage\<close> (on none when \<open>failPage\<close> is \<open>0\<close>: the pages start at \<open>1\<close>).
  Its price list knows \<open>bitcoin\<close> in two currencies and fails for \<open>unreachable\<close>.
\<close>

definition pagedClient :: "int \<Rightarrow> real Client" where
  "pagedClient failPage =
     \<lparr>CoinsList = Inr (Some [bitcoinCash, bitcoin, simpleCoin]),
      CoinsMarket = (\<lambda>req. if rq_page req = failPage then Inl ''unreachable''
                           else Inr (Some [sampleItem\<lparr>mk_MarketCapRank := rq_page req\<rparr>])),
      SimplePrice = (\<lambda>ids currencies.
         if ids = [''bitcoin''] then Inr (Some [Map.empty, [''eur'' \<mapsto> 8000], [''usd'' \<mapsto> 9000.5], [''usd'' \<mapsto> 1]])
         else if ids = [''unreachable''] then Inl ''unreachable''
         else Inr (Some []))\<rparr>"

text \<open>A client that cannot reach the provider.\<close>

definition offlineClient :: "real Client" where
  "offlineClient =
     \<lparr>CoinsList = Inl ''unreachable'', CoinsMarket = (\<lambda>req. Inl ''unreachable''),
      SimplePrice = (\<lambda>ids cs. Inl ''unreachable'')\<rparr>"

section \<open>The resolution table\<close>

subsection \<open>What the two loops store\<close>

lemma storeKeys_apply:
  "storeKeys m keys v k =
     (case m k of Some x \<Rightarrow> Some x | None \<Rightarrow> if k \<in> set keys then Some v else None)"
  by (induction keys arbitrary: m) (auto simp: storeIfAbsent_def split: option.splits)

lemma catalogPass_firstWords:
  "snd (catalogPass L u list m fw) = fw @ concat (map (itemFirstWords L u) list)"
  by (induction list arbitrary: m fw) (auto simp: itemFirstWords_def split: prod.splits)

lemma catalogPass_apply:
  "fst (catalogPass L u list m fw) k =
     (case m k of
        Some x \<Rightarrow> Some x
      | None \<Rightarrow> map_option cl_ID (find (\<lambda>item. k \<in> set (itemKeys L u item)) list))"
  by (induction list arbitrary: m fw)
     (auto simp: itemKeys_def storeKeys_apply split: prod.splits option.splits)

lemma commitFirstWords_apply:
  "commitFirstWords m fw k = (case m k of Some x \<Rightarrow> Some x | None \<Rightarrow> map_of fw k)"
  by (induction fw arbitrary: m) (auto simp: storeIfAbsent_def split: option.splits)

lemma buildTable_apply:
  "buildTable L u list m k =
     (case m k of
        Some x \<Rightarrow> Some x
      | None \<Rightarrow> (case find (\<lambda>item. k \<in> set (itemKeys L u item)) list of
                   Some item \<Rightarrow> Some (cl_ID item)
                 | None \<Rightarrow> map_of (concat (map (itemFirstWords L u) list)) k))"
proof -
  obtain m' fw where p: "catalogPass L u list m [] = (m', fw)"
    by (cases "catalogPass L u list m []")
  have 1: "m' k = (case m k of Some x \<Rightarrow> Some x
      | None \<Rightarrow> map_option cl_ID (find (\<lambda>item. k \<in> set (itemKeys L u item)) list))"
    using catalogPass_apply[of L u list m "[]" k] p by simp
  have 2: "fw = concat (map (itemFirstWords L u) list)"
    using catalogPass_firstWords[of L u list m "[]"] p by simp
  show ?thesis
    by (simp add: buildTable_def p commitFirstWords_apply 1 2 split: option.splits)
qed

lemma NewCoinGecko_cacheMap:
  "CoinsList client = Inr (Some list) \<Longrightarrow>
   cacheMap (NewCoinGecko L u client) = buildTable L u list Map.empty"
  by (simp add: NewCoinGecko_def cacheCoinsIDList_def)

lemma find_append_Cons:
  "P e \<Longrightarrow> find P (pre @ e # post) = (case find P pre of Some x \<Rightarrow> Some x | None \<Rightarrow> Some e)"
  by (induction pre) auto

subsection \<open>Resolving the keys of a catalog entry\<close>

text \<open>
  C2, as the code has it. The table is built by \<open>NewCoinGecko\<close> from a catalog in which
  the entry \<open>e\<close> comes after the entries \<open>pre\<close>, and \<open>k\<close> is the lower-cased name of \<open>e\<close>,
  its lower-cased symbol or the slug of its name. \<open>coinNameToID\<close> looks up the trimmed and
  lower-cased input, so the statement needs \<open>k\<close> to be a string that \<open>strings.TrimSpace\<close>
  and \<open>strings.ToLower\<close> leave as it is. Then the table has \<open>k\<close>, and resolving \<open>k\<close> gives
  the identifier of \<open>e\<close>, unless an entry of \<open>pre\<close> has \<open>k\<close> among the keys it stores during
  the pass: then it gives the identifier of the first such entry.
\<close>

theorem resolve_catalog_entry:
  assumes list: "CoinsList client = Inr (Some (pre @ e # post))"
    and key: "k \<in> {ToLower L (cl_Name e), ToLower L (cl_Symbol e), NameToSlug u (cl_Name e)}"
    and norm: "ToLower L (TrimSpace L k) = k"
  shows "cacheMap (NewCoinGecko L u client) k =
           Some (case find (\<lambda>item. k \<in> set (itemKeys L u item)) pre of
                   Some first \<Rightarrow> cl_ID first
                 | None \<Rightarrow> cl_ID e)
       \<and> coinNameToID L u (NewCoinGecko L u client) k =
           (case find (\<lambda>item. k \<in> set (itemKeys L u item)) pre of
              Some first \<Rightarrow> cl_ID first
            | None \<Rightarrow> cl_ID e)"
proof -
  have "k \<in> set (itemKeys L u e)"
    using key by (auto simp: itemKeys_def catalogItem_def Let_def)
  then have "find (\<lambda>item. k \<in> set (itemKeys L u item)) (pre @ e # post) =
      (case find (\<lambda>item. k \<in> set (itemKeys L u item)) pre of Some x \<Rightarrow> Some x | None \<Rightarrow> Some e)"
    by (rule find_append_Cons)
  then show ?thesis
    by (simp add: coinNameToID_def norm NewCoinGecko_cacheMap[OF list] buildTable_apply
             split: option.splits)
qed

text \<open>
  At the catalog Bitcoin Cash, Bitcoin, Bitcoin Gold, where Bitcoin Gold has the symbol
  of Bitcoin: the key \<open>btc\<close> of Bitcoin Gold was stored by Bitcoin and resolves to Bitcoin,
  the first of the two; the slug \<open>bitcoin-gold\<close> is a key of no earlier entry and
  resolves to Bitcoin Gold.
\<close>

theorem resolve_catalog_entry_witness:
  "CoinsList (catalogClient [bitcoinCash, bitcoin, bitcoinGold]) = Inr (Some ([bitcoinCash, bitcoin] @ bitcoinGold # []))
   \<and> ''btc'' \<in> {ToLower asciiStrings (cl_Name bitcoinGold), ToLower asciiStrings (cl_Symbol bitcoinGold),
                  NameToSlug plainUtil (cl_Name bitcoinGold)}
   \<and> ToLower asciiStrings (TrimSpace asciiStrings ''btc'') = ''btc''
   \<and> find (\<lambda>item. ''btc'' \<in> set (itemKeys asciiStrings plainUtil item)) [bitcoinCash, bitcoin] = Some bitcoin
   \<and> coinNameToID asciiStrings plainUtil (NewCoinGecko asciiStrings plainUtil (catalogClient [bitcoinCash, bitcoin, bitcoinGold])) ''btc''
       = ''bitcoin''
   \<and> ''bitcoin-gold'' \<in> {ToLower asciiStrings (cl_Name bitcoinGold), ToLower asciiStrings (cl_Symbol bitcoinGold),
                  NameToSlug plainUtil (cl_Name bitcoinGold)}
   \<and> ToLower asciiStrings (TrimSpace asciiStrings ''bitcoin-gold'') = ''bitcoin-gold''
   \<and> find (\<lambda>item. ''bitcoin-gold'' \<in> set (itemKeys asciiStrings plainUtil item)) [bitcoinCash, bitcoin] = None
   \<and> coinNameToID asciiStrings plainUtil (NewCoinGecko asciiStrings plainUtil (catalogClient [bitcoinCash, bitcoin, bitcoinGold])) ''bitcoin-gold''
       = ''bitcoin-gold''"
proof -
  let ?c = "catalogClient [bitcoinCash, bitcoin, bitcoinGold]"
  have h1: "CoinsList ?c = Inr (Some ([bitcoinCash, bitcoin] @ bitcoinGold # []))"
    by (simp add: catalogClient_def)
  have h2: "''btc'' \<in> {ToLower asciiStrings (cl_Name bitcoinGold), ToLower asciiStrings (cl_Symbol bitcoinGold),
                  NameToSlug plainUtil (cl_Name bitcoinGold)}"
    by code_simp
  have h3: "ToLower asciiStrings (TrimSpace asciiStrings ''btc'') = ''btc''"
    by code_simp
  have f1: "find (\<lambda>item. ''btc'' \<in> set (itemKeys asciiStrings plainUtil item)) [bitcoinCash, bitcoin] = Some bitcoin"
    by code_simp
  have g2: "''bitcoin-gold'' \<in> {ToLower asciiStrings (cl_Name bitcoinGold), ToLower asciiStrings (cl_Symbol bitcoinGold),
                  NameToSlug plainUtil (cl_Name bitcoinGold)}"
    by code_simp
  have g3: "ToLower asciiStrings (TrimSpace asciiStrings ''bitcoin-gold'') = ''bitcoin-gold''"
    by code_simp
  have f2: "find (\<lambda>item. ''bitcoin-gold'' \<in> set (itemKeys asciiStrings plainUtil item)) [bitcoinCash, bitcoin] = None"
    by code_simp
  have ids: "cl_ID bitcoin = ''bitcoin''" "cl_ID bitcoinGold = ''bitcoin-gold''"
    by (simp_all add: bitcoin_def bitcoinGold_def)
  have r1: "coinNameToID asciiStrings plainUtil (NewCoinGecko asciiStrings plainUtil ?c) ''btc'' = ''bitcoin''"
    using resolve_catalog_entry [OF h1 h2 h3, THEN conjunct2] unfolding f1 by (simp add: ids)
  have r2: "coinNameToID asciiStrings plainUtil (NewCoinGecko asciiStrings plainUtil ?c) ''bitcoin-gold'' = ''bitcoin-gold''"
    using resolve_catalog_entry [OF h1 g2 g3, THEN conjunct2] unfolding f2 by (simp add: ids)
  show ?thesis
    by (intro conjI h1 h2 h3 f1 r1 g2 g3 f2 r2)
qed

text \<open>
  The claim as it was stated fails for a name with white space at an end. In the catalog
  Bitcoin, "Bitcoin " the second entry's lower-cased name is a key that the first entry
  does not store, and resolving it gives the first entry's identifier: the lookup trims
  its input, the table keeps the names untrimmed.
\<close>

theorem resolve_padded_name_counterexample:
  "ToLower asciiStrings (cl_Name bitcoinPadded) \<notin> set (itemKeys asciiStrings plainUtil bitcoin)
   \<and> coinNameToID asciiStrings plainUtil (NewCoinGecko asciiStrings plainUtil (catalogClient [bitcoin, bitcoinPadded]))
         (ToLower asciiStrings (cl_Name bitcoinPadded)) = cl_ID bitcoin
   \<and> cl_ID bitcoin \<noteq> cl_ID bitcoinPadded"
  by code_simp

subsection \<open>First words are committed after the pass\<close>

text \<open>
  C3. Let \<open>parts\<close> be the lower-cased name of an item split at the spaces. With two pieces
  or more and a second piece other than \<open>coin\<close>, the item stores its three explicit keys
  and its first piece is collected with the item's identifier; with the second piece
  \<open>coin\<close> the first piece is a fourth key, stored during the pass, and nothing is
  collected. Let the client return the catalog \<open>list\<close> and let the first loop of
  \<open>cacheCoinsIDList\<close>, from the empty map, end with the map \<open>m'\<close> and the collected pairs
  \<open>firstWords\<close>. Then \<open>firstWords\<close> holds the collected pairs of all items in catalog
  order, and \<open>m'\<close> holds, for a key, the identifier of the first item that has it among
  its keys. \<open>cacheCoinsIDList\<close> on a service with an empty map returns no error and leaves
  the table that is \<open>m'\<close>, extended by the collected pairs for the keys \<open>m'\<close> does not
  have; that is the table of the service \<open>NewCoinGecko\<close> returns. So a key of any item
  is in the table with the identifier of the first item that has it as a key, wherever a
  deferred first word stands in the catalog, and \<open>coinNameToID\<close> returns that identifier
  for every input whose trimmed, lower-cased form is the key.
\<close>

theorem deferred_first_words:
  assumes list: "CoinsList client = Inr (Some list)"
    and pass: "catalogPass L u list Map.empty [] = (m', firstWords)"
  shows "(let parts = Split (ToLower L (cl_Name item)) CHR '' '';
              keys = [ToLower L (cl_Name item), ToLower L (cl_Symbol item), NameToSlug u (cl_Name item)]
          in (length parts > 1 \<and> parts ! 1 \<noteq> ''coin'' \<longrightarrow>
                itemKeys L u item = keys \<and> itemFirstWords L u item = [(parts ! 0, cl_ID item)])
           \<and> (length parts > 1 \<and> parts ! 1 = ''coin'' \<longrightarrow>
                itemKeys L u item = keys @ [parts ! 0] \<and> itemFirstWords L u item = []))
       \<and> firstWords = concat (map (itemFirstWords L u) list)
       \<and> m' k = map_option cl_ID (find (\<lambda>x. k \<in> set (itemKeys L u x)) list)
       \<and> (cacheMap s = Map.empty \<longrightarrow>
            snd (cacheCoinsIDList L u client s) = None
            \<and> cacheMap (fst (cacheCoinsIDList L u client s)) k =
                (case m' k of Some v \<Rightarrow> Some v | None \<Rightarrow> map_of firstWords k))
       \<and> cacheMap (NewCoinGecko L u client) k = (case m' k of Some v \<Rightarrow> Some v | None \<Rightarrow> map_of firstWords k)
       \<and> ((\<exists>x \<in> set list. k \<in> set (itemKeys L u x)) \<longrightarrow>
            (\<exists>x. find (\<lambda>x. k \<in> set (itemKeys L u x)) list = Some x
                 \<and> cacheMap (NewCoinGecko L u client) k = Some (cl_ID x)
                 \<and> (ToLower L (TrimSpace L name) = k \<longrightarrow>
                      coinNameToID L u (NewCoinGecko L u client) name = cl_ID x)))"
proof -
  have items: "(let parts = Split (ToLower L (cl_Name item)) CHR '' '';
              keys = [ToLower L (cl_Name item), ToLower L (cl_Symbol item), NameToSlug u (cl_Name item)]
          in (length parts > 1 \<and> parts ! 1 \<noteq> ''coin'' \<longrightarrow>
                itemKeys L u item = keys \<and> itemFirstWords L u item = [(parts ! 0, cl_ID item)])
           \<and> (length parts > 1 \<and> parts ! 1 = ''coin'' \<longrightarrow>
                itemKeys L u item = keys @ [parts ! 0] \<and> itemFirstWords L u item = []))"
    by (simp add: itemKeys_def itemFirstWords_def catalogItem_def Let_def)
  have fw: "firstWords = concat (map (itemFirstWords L u) list)"
    using catalogPass_firstWords[of L u list Map.empty "[]"] pass by simp
  have m': "m' k = map_option cl_ID (find (\<lambda>x. k \<in> set (itemKeys L u x)) list)"
    using catalogPass_apply[of L u list Map.empty "[]" k] pass by simp
  have table: "buildTable L u list Map.empty k = (case m' k of Some v \<Rightarrow> Some v | None \<Rightarrow> map_of firstWords k)"
    by (simp add: buildTable_def pass commitFirstWords_apply)
  have cache: "snd (cacheCoinsIDList L u client s) = None
            \<and> cacheMap (fst (cacheCoinsIDList L u client s)) k =
                (case m' k of Some v \<Rightarrow> Some v | None \<Rightarrow> map_of firstWords k)"
    if "cacheMap s = Map.empty"
    using that table by (simp add: cacheCoinsIDList_def list)
  have new: "cacheMap (NewCoinGecko L u client) k = (case m' k of Some v \<Rightarrow> Some v | None \<Rightarrow> map_of firstWords k)"
    by (simp add: NewCoinGecko_cacheMap[OF list] table)
  have prec: "(\<exists>x. find (\<lambda>x. k \<in> set (itemKeys L u x)) list = Some x
                 \<and> cacheMap (NewCoinGecko L u client) k = Some (cl_ID x)
                 \<and> (ToLower L (TrimSpace L name) = k \<longrightarrow>
                      coinNameToID L u (NewCoinGecko L u client) name = cl_ID x))"
    if "\<exists>x \<in> set list. k \<in> set (itemKeys L u x)"
  proof -
    from that obtain x where x: "find (\<lambda>x. k \<in> set (itemKeys L u x)) list = Some x"
      by (cases "find (\<lambda>x. k \<in> set (itemKeys L u x)) list") (auto simp: find_None_iff)
    then have c: "cacheMap (NewCoinGecko L u client) k = Some (cl_ID x)"
      by (simp add: new m')
    then have "coinNameToID L u (NewCoinGecko L u client) name = cl_ID x"
      if "ToLower L (TrimSpace L name) = k"
      using that by (simp add: coinNameToID_def)
    with x c show ?thesis by blast
  qed
  from items fw m' cache new prec show ?thesis by blast
qed

text \<open>
  At the catalog Bitcoin Cash, Bitcoin, Simple Coin: \<open>bitcoin\<close> is collected for Bitcoin
  Cash and is the name of Bitcoin, and " Bitcoin" resolves to Bitcoin; \<open>simple\<close> is a key
  of Simple Coin and resolves to it.
\<close>

theorem deferred_first_words_witness:
  "CoinsList (catalogClient [bitcoinCash, bitcoin, simpleCoin]) = Inr (Some [bitcoinCash, bitcoin, simpleCoin])
   \<and> itemFirstWords asciiStrings plainUtil bitcoinCash = [(''bitcoin'', ''bitcoin-cash'')]
   \<and> itemKeys asciiStrings plainUtil simpleCoin = [''simple coin'', ''smp'', ''simple-coin'', ''simple'']
   \<and> snd (catalogPass asciiStrings plainUtil [bitcoinCash, bitcoin, simpleCoin] Map.empty []) = [(''bitcoin'', ''bitcoin-cash'')]
   \<and> cacheMap (fst (cacheCoinsIDList asciiStrings plainUtil (catalogClient [bitcoinCash, bitcoin, simpleCoin])
                 \<lparr>maxResultsPerPage = 250, maxPages = 10, cacheMap = Map.empty\<rparr>)) ''bitcoin'' = Some ''bitcoin''
   \<and> cacheMap (NewCoinGecko asciiStrings plainUtil (catalogClient [bitcoinCash, bitcoin, simpleCoin])) ''bitcoin'' = Some ''bitcoin''
   \<and> coinNameToID asciiStrings plainUtil (NewCoinGecko asciiStrings plainUtil (catalogClient [bitcoinCash, bitcoin, simpleCoin])) '' Bitcoin''
       = ''bitcoin''
   \<and> coinNameToID asciiStrings plainUtil (NewCoinGecko asciiStrings plainUtil (catalogClient [bitcoinCash, bitcoin, simpleCoin])) ''simple''
       = ''simple-coin''"
proof -
  let ?L = "[bitcoinCash, bitcoin, simpleCoin]"
  let ?c = "catalogClient ?L"
  let ?s0 = "\<lparr>maxResultsPerPage = 250, maxPages = 10, cacheMap = Map.empty\<rparr>"
  have list: "CoinsList ?c = Inr (Some ?L)"
    by (simp add: catalogClient_def)
  have pass: "catalogPass asciiStrings plainUtil ?L Map.empty [] =
      (fst (catalogPass asciiStrings plainUtil ?L Map.empty []), snd (catalogPass asciiStrings plainUtil ?L Map.empty []))"
    by simp
  note T = deferred_first_words [OF list pass]
  have cash: "length (Split (ToLower asciiStrings (cl_Name bitcoinCash)) CHR '' '') > 1
      \<and> Split (ToLower asciiStrings (cl_Name bitcoinCash)) CHR '' '' ! 1 \<noteq> ''coin''"
    by code_simp
  have coin: "length (Split (ToLower asciiStrings (cl_Name simpleCoin)) CHR '' '') > 1
      \<and> Split (ToLower asciiStrings (cl_Name simpleCoin)) CHR '' '' ! 1 = ''coin''"
    by code_simp
  have has1: "\<exists>x \<in> set ?L. ''bitcoin'' \<in> set (itemKeys asciiStrings plainUtil x)"
    by code_simp
  have has2: "\<exists>x \<in> set ?L. ''simple'' \<in> set (itemKeys asciiStrings plainUtil x)"
    by code_simp
  have n1: "ToLower asciiStrings (TrimSpace asciiStrings '' Bitcoin'') = ''bitcoin''"
    by code_simp
  have n2: "ToLower asciiStrings (TrimSpace asciiStrings ''simple'') = ''simple''"
    by code_simp
  have e0: "cacheMap ?s0 = Map.empty"
    by simp
  have 1: "itemFirstWords asciiStrings plainUtil bitcoinCash =
      [(Split (ToLower asciiStrings (cl_Name bitcoinCash)) CHR '' '' ! 0, cl_ID bitcoinCash)]"
    using T [of bitcoinCash "''bitcoin''" ?s0 "'' Bitcoin''"] cash by (simp add: Let_def)
  have 2: "itemKeys asciiStrings plainUtil simpleCoin =
      [ToLower asciiStrings (cl_Name simpleCoin), ToLower asciiStrings (cl_Symbol simpleCoin), NameToSlug plainUtil (cl_Name simpleCoin)]
        @ [Split (ToLower asciiStrings (cl_Name simpleCoin)) CHR '' '' ! 0]"
    using T [of simpleCoin "''bitcoin''" ?s0 "'' Bitcoin''"] coin by (simp add: Let_def)
  have 3: "snd (catalogPass asciiStrings plainUtil ?L Map.empty []) = concat (map (itemFirstWords asciiStrings plainUtil) ?L)"
    using T [of bitcoinCash "''bitcoin''" ?s0 "'' Bitcoin''"] by blast
  have 4: "\<exists>x. find (\<lambda>x. ''bitcoin'' \<in> set (itemKeys asciiStrings plainUtil x)) ?L = Some x
        \<and> cacheMap (NewCoinGecko asciiStrings plainUtil ?c) ''bitcoin'' = Some (cl_ID x)
        \<and> coinNameToID asciiStrings plainUtil (NewCoinGecko asciiStrings plainUtil ?c) '' Bitcoin'' = cl_ID x"
    using T [of bitcoinCash "''bitcoin''" ?s0 "'' Bitcoin''"] has1 n1 by blast
  have 5: "\<exists>x. find (\<lambda>x. ''simple'' \<in> set (itemKeys asciiStrings plainUtil x)) ?L = Some x
        \<and> cacheMap (NewCoinGecko asciiStrings plainUtil ?c) ''simple'' = Some (cl_ID x)
        \<and> coinNameToID asciiStrings plainUtil (NewCoinGecko asciiStrings plainUtil ?c) ''simple'' = cl_ID x"
    using T [of bitcoinCash "''simple''" ?s0 "''simple''"] has2 n2 by blast
  have 6: "cacheMap (fst (cacheCoinsIDList asciiStrings plainUtil ?c ?s0)) ''bitcoin'' =
      cacheMap (NewCoinGecko asciiStrings plainUtil ?c) ''bitcoin''"
    using T [of bitcoinCash "''bitcoin''" ?s0 "'' Bitcoin''"] e0 by simp
  have e1: "[(Split (ToLower asciiStrings (cl_Name bitcoinCash)) CHR '' '' ! 0, cl_ID bitcoinCash)] = [(''bitcoin'', ''bitcoin-cash'')]"
    by code_simp
  have e2: "[ToLower asciiStrings (cl_Name simpleCoin), ToLower asciiStrings (cl_Symbol simpleCoin), NameToSlug plainUtil (cl_Name simpleCoin)]
        @ [Split (ToLower asciiStrings (cl_Name simpleCoin)) CHR '' '' ! 0] = [''simple coin'', ''smp'', ''simple-coin'', ''simple'']"
    by code_simp
  have e3: "concat (map (itemFirstWords asciiStrings plainUtil) ?L) = [(''bitcoin'', ''bitcoin-cash'')]"
    by code_simp
  have e4: "find (\<lambda>x. ''bitcoin'' \<in> set (itemKeys asciiStrings plainUtil x)) ?L = Some bitcoin"
    by code_simp
  have e5: "find (\<lambda>x. ''simple'' \<in> set (itemKeys asciiStrings plainUtil x)) ?L = Some simpleCoin"
    by code_simp
  have i4: "cl_ID bitcoin = ''bitcoin''" and i5: "cl_ID simpleCoin = ''simple-coin''"
    by (simp_all add: bitcoin_def simpleCoin_def)
  from 4 e4 i4 have r4: "cacheMap (NewCoinGecko asciiStrings plainUtil ?c) ''bitcoin'' = Some ''bitcoin''"
    and r4': "coinNameToID asciiStrings plainUtil (NewCoinGecko asciiStrings plainUtil ?c) '' Bitcoin'' = ''bitcoin''"
    by auto
  from 5 e5 i5 have r5: "coinNameToID asciiStrings plainUtil (NewCoinGecko asciiStrings plainUtil ?c) ''simple'' = ''simple-coin''"
    by auto
  from 6 r4 have r6: "cacheMap (fst (cacheCoinsIDList asciiStrings plainUtil ?c ?s0)) ''bitcoin'' = Some ''bitcoin''"
    by simp
  from 1 e1 have w1: "itemFirstWords asciiStrings plainUtil bitcoinCash = [(''bitcoin'', ''bitcoin-cash'')]"
    by simp
  from 2 e2 have w2: "itemKeys asciiStrings plainUtil simpleCoin = [''simple coin'', ''smp'', ''simple-coin'', ''simple'']"
    by simp
  from 3 e3 have w3: "snd (catalogPass asciiStrings plainUtil ?L Map.empty []) = [(''bitcoin'', ''bitcoin-cash'')]"
    by simp
  show ?thesis
    by (intro conjI list w1 w2 w3 r6 r4 r4' r5)
qed

subsection \<open>Resolution is total\<close>

text \<open>
  C5. \<open>coinNameToID\<close> returns a string for every input and every table: the stored
  identifier when the trimmed, lower-cased input is a key of the table, and otherwise the
  slug of the input as it was given. For the table that \<open>NewCoinGecko\<close> builds from a
  catalog this is the identifier of the first item that has the trimmed, lower-cased
  input among its keys, else the identifier collected first with that first word, else
  the slug of the input; when the client has no catalog the table is empty and every
  input comes back as its slug.
\<close>

theorem coinNameToID_hit_or_slug:
  "(cacheMap s (ToLower L (TrimSpace L name)) = Some v \<longrightarrow> coinNameToID L u s name = v)
   \<and> (cacheMap s (ToLower L (TrimSpace L name)) = None \<longrightarrow> coinNameToID L u s name = NameToSlug u name)
   \<and> (CoinsList client = Inr (Some list) \<longrightarrow>
        coinNameToID L u (NewCoinGecko L u client) name =
          (case find (\<lambda>item. ToLower L (TrimSpace L name) \<in> set (itemKeys L u item)) list of
             Some item \<Rightarrow> cl_ID item
           | None \<Rightarrow> (case map_of (concat (map (itemFirstWords L u) list)) (ToLower L (TrimSpace L name)) of
                        Some v \<Rightarrow> v
                      | None \<Rightarrow> NameToSlug u name)))
   \<and> ((\<exists>err. CoinsList client = Inl err) \<or> CoinsList client = Inr None \<longrightarrow>
        coinNameToID L u (NewCoinGecko L u client) name = NameToSlug u name)"
proof -
  have 1: "coinNameToID L u s name = v" if "cacheMap s (ToLower L (TrimSpace L name)) = Some v"
    using that by (simp add: coinNameToID_def)
  have 2: "coinNameToID L u s name = NameToSlug u name" if "cacheMap s (ToLower L (TrimSpace L name)) = None"
    using that by (simp add: coinNameToID_def)
  have 3: "coinNameToID L u (NewCoinGecko L u client) name =
          (case find (\<lambda>item. ToLower L (TrimSpace L name) \<in> set (itemKeys L u item)) list of
             Some item \<Rightarrow> cl_ID item
           | None \<Rightarrow> (case map_of (concat (map (itemFirstWords L u) list)) (ToLower L (TrimSpace L name)) of
                        Some v \<Rightarrow> v
                      | None \<Rightarrow> NameToSlug u name))"
    if "CoinsList client = Inr (Some list)"
    by (simp add: coinNameToID_def NewCoinGecko_cacheMap[OF that] buildTable_apply split: option.splits)
  have 4: "coinNameToID L u (NewCoinGecko L u client) name = NameToSlug u name"
    if "(\<exists>err. CoinsList client = Inl err) \<or> CoinsList client = Inr None"
    using that by (auto simp: coinNameToID_def NewCoinGecko_def cacheCoinsIDList_def Let_def)
  from 1 2 3 4 show ?thesis by blast
qed

text \<open>
  With the table of Bitcoin Cash, Bitcoin, Simple Coin: " BTC " is found, "Doge Coin!"
  is not and comes back as its slug. With a client that has no catalog, " BTC " comes
  back as its slug.
\<close>

theorem coinNameToID_hit_or_slug_witness:
  "cacheMap (NewCoinGecko asciiStrings plainUtil (catalogClient [bitcoinCash, bitcoin, simpleCoin]))
       (ToLower asciiStrings (TrimSpace asciiStrings '' BTC '')) = Some ''bitcoin''
   \<and> coinNameToID asciiStrings plainUtil (NewCoinGecko asciiStrings plainUtil (catalogClient [bitcoinCash, bitcoin, simpleCoin])) '' BTC ''
       = ''bitcoin''
   \<and> cacheMap (NewCoinGecko asciiStrings plainUtil (catalogClient [bitcoinCash, bitcoin, simpleCoin]))
       (ToLower asciiStrings (TrimSpace asciiStrings ''Doge Coin!'')) = None
   \<and> coinNameToID asciiStrings plainUtil (NewCoinGecko asciiStrings plainUtil (catalogClient [bitcoinCash, bitcoin, simpleCoin])) ''Doge Coin!''
       = ''doge-coin-''
   \<and> CoinsList (catalogClient [bitcoinCash, bitcoin, simpleCoin]) = Inr (Some [bitcoinCash, bitcoin, simpleCoin])
   \<and> coinNameToID asciiStrings plainUtil (NewCoinGecko asciiStrings plainUtil (catalogClient [bitcoinCash, bitcoin, simpleCoin])) ''Simple''
       = ''simple-coin''
   \<and> CoinsList offlineClient = Inl ''unreachable''
   \<and> coinNameToID asciiStrings plainUtil (NewCoinGecko asciiStrings plainUtil offlineClient) '' BTC '' = ''-btc-''"
proof -
  let ?Lst = "[bitcoinCash, bitcoin, simpleCoin]"
  let ?c = "catalogClient ?Lst"
  let ?s = "NewCoinGecko asciiStrings plainUtil ?c"
  have hit: "cacheMap ?s (ToLower asciiStrings (TrimSpace asciiStrings '' BTC '')) = Some ''bitcoin''"
    by code_simp
  have miss: "cacheMap ?s (ToLower asciiStrings (TrimSpace asciiStrings ''Doge Coin!'')) = None"
    by code_simp
  have slug: "NameToSlug plainUtil ''Doge Coin!'' = ''doge-coin-''"
    by code_simp
  have slug': "NameToSlug plainUtil '' BTC '' = ''-btc-''"
    by code_simp
  have list: "CoinsList ?c = Inr (Some ?Lst)"
    by (simp add: catalogClient_def)
  have off: "CoinsList offlineClient = Inl ''unreachable''"
    by (simp add: offlineClient_def)
  have cat: "(case find (\<lambda>item. ToLower asciiStrings (TrimSpace asciiStrings ''Simple'') \<in> set (itemKeys asciiStrings plainUtil item)) ?Lst of
             Some item \<Rightarrow> cl_ID item
           | None \<Rightarrow> (case map_of (concat (map (itemFirstWords asciiStrings plainUtil) ?Lst)) (ToLower asciiStrings (TrimSpace asciiStrings ''Simple'')) of
                        Some v \<Rightarrow> v
                      | None \<Rightarrow> NameToSlug plainUtil ''Simple'')) = ''simple-coin''"
    by code_simp
  from coinNameToID_hit_or_slug [of ?s asciiStrings "'' BTC ''" "''bitcoin''" plainUtil ?c ?Lst] hit
  have 1: "coinNameToID asciiStrings plainUtil ?s '' BTC '' = ''bitcoin''" by blast
  from coinNameToID_hit_or_slug [of ?s asciiStrings "''Doge Coin!''" "''bitcoin''" plainUtil ?c ?Lst] miss slug
  have 2: "coinNameToID asciiStrings plainUtil ?s ''Doge Coin!'' = ''doge-coin-''" by simp
  from coinNameToID_hit_or_slug [of ?s asciiStrings "''Simple''" "''bitcoin''" plainUtil ?c ?Lst] list
  have "coinNameToID asciiStrings plainUtil ?s ''Simple'' =
      (case find (\<lambda>item. ToLower asciiStrings (TrimSpace asciiStrings ''Simple'') \<in> set (itemKeys asciiStrings plainUtil item)) ?Lst of
             Some item \<Rightarrow> cl_ID item
           | None \<Rightarrow> (case map_of (concat (map (itemFirstWords asciiStrings plainUtil) ?Lst)) (ToLower asciiStrings (TrimSpace asciiStrings ''Simple'')) of
                        Some v \<Rightarrow> v
                      | None \<Rightarrow> NameToSlug plainUtil ''Simple''))"
    by blast
  with cat have 3: "coinNameToID asciiStrings plainUtil ?s ''Simple'' = ''simple-coin''"
    by simp
  from coinNameToID_hit_or_slug [of ?s asciiStrings "'' BTC ''" "''bitcoin''" plainUtil offlineClient ?Lst] off slug'
  have 4: "coinNameToID asciiStrings plainUtil (NewCoinGecko asciiStrings plainUtil offlineClient) '' BTC '' = ''-btc-''"
    by simp
  show ?thesis
    by (intro conjI hit 1 miss 2 list 3 off 4)
qed

section \<open>Normalising a page\<close>

lemma getPaginatedCoinData_Some:
  "CoinsMarket client (marketRequest L u s convert offset names) = Inr (Some list) \<Longrightarrow>
   getPaginatedCoinData L u s client convert offset names = Inr (map (normalizeItem u convert) list)"
  by (simp add: getPaginatedCoinData_def)

text \<open>
  C7. When the client returns a list, \<open>getPaginatedCoinData\<close> returns one record for each
  of its records, in order, and no error. The total supply handed to \<open>FormatSupply\<close> is the
  circulating supply when the raw total supply is \<open>0\<close> and the raw total supply otherwise;
  the percent change handed to \<open>FormatPercentChange\<close> is \<open>0\<close> when the provider's field is
  \<open>nil\<close> and the provider's value otherwise, for each of the four windows.
\<close>

theorem supply_and_percent_defaults:
  assumes "CoinsMarket client (marketRequest L u s convert offset names) = Inr (Some list)"
  shows "\<exists>coins. getPaginatedCoinData L u s client convert offset names = Inr coins
          \<and> length coins = length list
          \<and> (\<forall>i < length list.
               TotalSupply (coins ! i) =
                 FormatSupply u (if mk_TotalSupply (list ! i) = 0 then mk_CirculatingSupply (list ! i)
                                 else mk_TotalSupply (list ! i))
             \<and> AvailableSupply (coins ! i) = FormatSupply u (mk_CirculatingSupply (list ! i))
             \<and> PercentChange1H (coins ! i) =
                 FormatPercentChange u (case mk_PriceChangePercentage1hInCurrency (list ! i) of None \<Rightarrow> 0 | Some p \<Rightarrow> p)
             \<and> PercentChange24H (coins ! i) =
                 FormatPercentChange u (case mk_PriceChangePercentage24hInCurrency (list ! i) of None \<Rightarrow> 0 | Some p \<Rightarrow> p)
             \<and> PercentChange7D (coins ! i) =
                 FormatPercentChange u (case mk_PriceChangePercentage7dInCurrency (list ! i) of None \<Rightarrow> 0 | Some p \<Rightarrow> p)
             \<and> PercentChange30D (coins ! i) =
                 FormatPercentChange u (case mk_PriceChangePercentage30dInCurrency (list ! i) of None \<Rightarrow> 0 | Some p \<Rightarrow> p))"
  using getPaginatedCoinData_Some [OF assms] by (simp add: normalizeItem_def Let_def)

text \<open>
  The sample record has total supply \<open>0\<close>, circulating supply \<open>1000\<close> and no change over seven
  days: the record made of it has total supply \<open>1000\<close> and change \<open>0\<close>.
\<close>

theorem supply_and_percent_defaults_witness:
  "CoinsMarket (pagedClient 0) (marketRequest asciiStrings plainUtil (NewCoinGecko asciiStrings plainUtil (pagedClient 0)) ''usd'' 0 [])
     = Inr (Some [sampleItem\<lparr>mk_MarketCapRank := 1\<rparr>])
   \<and> (\<exists>coins. getPaginatedCoinData asciiStrings plainUtil (NewCoinGecko asciiStrings plainUtil (pagedClient 0)) (pagedClient 0) ''usd'' 0 [] = Inr coins
        \<and> length coins = 1
        \<and> TotalSupply (coins ! 0) = 1000
        \<and> PercentChange1H (coins ! 0) = 0.5
        \<and> PercentChange7D (coins ! 0) = 0)"
proof -
  let ?s = "NewCoinGecko asciiStrings plainUtil (pagedClient 0)"
  have h: "CoinsMarket (pagedClient 0) (marketRequest asciiStrings plainUtil ?s ''usd'' 0 [])
      = Inr (Some [sampleItem\<lparr>mk_MarketCapRank := 1\<rparr>])"
    by (simp add: pagedClient_def marketRequest_def Let_def)
  from supply_and_percent_defaults [OF h]
  obtain coins where c: "getPaginatedCoinData asciiStrings plainUtil ?s (pagedClient 0) ''usd'' 0 [] = Inr coins"
    "length coins = 1"
    "TotalSupply (coins ! 0) = 1000" "PercentChange1H (coins ! 0) = 0.5" "PercentChange7D (coins ! 0) = 0"
    by (auto simp: sampleItem_def plainUtil_def)
  with h show ?thesis by blast
qed

section \<open>The targeted calls\<close>

text \<open>
  C10. \<open>GetCoinData\<close> asks for the first page with the one name. It returns the zero
  \<open>Coin\<close> and no error when the client returns no list or an empty one, the first
  normalised record and no error when the list has a record, and the zero \<open>Coin\<close> with the
  client's error when the client fails; an error is returned in that last case only.
\<close>

theorem GetCoinData_empty_is_not_an_error:
  "(CoinsMarket client (marketRequest L u s convert 0 [name]) \<in> {Inr None, Inr (Some [])} \<longrightarrow>
      GetCoinData L u s client name convert = (zeroCoin, None))
   \<and> (CoinsMarket client (marketRequest L u s convert 0 [name]) = Inr (Some (item # rest)) \<longrightarrow>
      GetCoinData L u s client name convert = (normalizeItem u convert item, None))
   \<and> (CoinsMarket client (marketRequest L u s convert 0 [name]) = Inl e \<longrightarrow>
      GetCoinData L u s client name convert = (zeroCoin, Some (ClientError e)))
   \<and> (snd (GetCoinData L u s client name convert) \<noteq> None \<longleftrightarrow>
      (\<exists>e. CoinsMarket client (marketRequest L u s convert 0 [name]) = Inl e))"
  by (auto simp: GetCoinData_def getPaginatedCoinData_def Let_def split: sum.splits option.splits)

text \<open>
  A client without market data gives the zero \<open>Coin\<close> and no error; the client that fails
  on the first page gives the zero \<open>Coin\<close> and its error.
\<close>

theorem GetCoinData_empty_is_not_an_error_witness:
  "CoinsMarket (catalogClient [bitcoin]) (marketRequest asciiStrings plainUtil (NewCoinGecko asciiStrings plainUtil (catalogClient [bitcoin])) ''usd'' 0 [''dogecoin''])
      \<in> {Inr None, Inr (Some [])}
   \<and> GetCoinData asciiStrings plainUtil (NewCoinGecko asciiStrings plainUtil (catalogClient [bitcoin])) (catalogClient [bitcoin]) ''dogecoin'' ''usd''
       = (zeroCoin, None)
   \<and> CoinsMarket (pagedClient 1) (marketRequest asciiStrings plainUtil (NewCoinGecko asciiStrings plainUtil (pagedClient 1)) ''usd'' 0 [''bitcoin''])
       = Inl ''unreachable''
   \<and> GetCoinData asciiStrings plainUtil (NewCoinGecko asciiStrings plainUtil (pagedClient 1)) (pagedClient 1) ''bitcoin'' ''usd''
       = (zeroCoin, Some (ClientError ''unreachable''))
   \<and> CoinsMarket (pagedClient 0) (marketRequest asciiStrings plainUtil (NewCoinGecko asciiStrings plainUtil (pagedClient 0)) ''usd'' 0 [''bitcoin''])
       = Inr (Some (sampleItem\<lparr>mk_MarketCapRank := 1\<rparr> # []))
   \<and> GetCoinData asciiStrings plainUtil (NewCoinGecko asciiStrings plainUtil (pagedClient 0)) (pagedClient 0) ''bitcoin'' ''usd''
       = (normalizeItem plainUtil ''usd'' (sampleItem\<lparr>mk_MarketCapRank := 1\<rparr>), None)"
proof -
  let ?s0 = "NewCoinGecko asciiStrings plainUtil (catalogClient [bitcoin])"
  let ?s1 = "NewCoinGecko asciiStrings plainUtil (pagedClient 1)"
  let ?s2 = "NewCoinGecko asciiStrings plainUtil (pagedClient 0)"
  have h0: "CoinsMarket (catalogClient [bitcoin]) (marketRequest asciiStrings plainUtil ?s0 ''usd'' 0 [''dogecoin''])
      \<in> {Inr None, Inr (Some [])}"
    by (simp add: catalogClient_def)
  have h1: "CoinsMarket (pagedClient 1) (marketRequest asciiStrings plainUtil ?s1 ''usd'' 0 [''bitcoin'']) = Inl ''unreachable''"
    by (simp add: pagedClient_def marketRequest_def Let_def)
  have h2: "CoinsMarket (pagedClient 0) (marketRequest asciiStrings plainUtil ?s2 ''usd'' 0 [''bitcoin''])
       = Inr (Some (sampleItem\<lparr>mk_MarketCapRank := 1\<rparr> # []))"
    by (simp add: pagedClient_def marketRequest_def Let_def)
  from GetCoinData_empty_is_not_an_error [of "catalogClient [bitcoin]" asciiStrings plainUtil ?s0 "''usd''" "''dogecoin''"] h0
  have r0: "GetCoinData asciiStrings plainUtil ?s0 (catalogClient [bitcoin]) ''dogecoin'' ''usd'' = (zeroCoin, None)"
    by blast
  from GetCoinData_empty_is_not_an_error [of "pagedClient 1" asciiStrings plainUtil ?s1 "''usd''" "''bitcoin''" _ _ "''unreachable''"] h1
  have r1: "GetCoinData asciiStrings plainUtil ?s1 (pagedClient 1) ''bitcoin'' ''usd'' = (zeroCoin, Some (ClientError ''unreachable''))"
    by blast
  from GetCoinData_empty_is_not_an_error [of "pagedClient 0" asciiStrings plainUtil ?s2 "''usd''" "''bitcoin''" "sampleItem\<lparr>mk_MarketCapRank := 1\<rparr>" "[]"] h2
  have r2: "GetCoinData asciiStrings plainUtil ?s2 (pagedClient 0) ''bitcoin'' ''usd''
       = (normalizeItem plainUtil ''usd'' (sampleItem\<lparr>mk_MarketCapRank := 1\<rparr>), None)"
    by blast
  from h0 h1 h2 r0 r1 r2 show ?thesis by blast
qed

subsection \<open>Price\<close>

lemma Price_loop_none:
  "(\<forall>item \<in> set priceList. item convert = None) \<Longrightarrow> Price_loop u convert priceList = (0, Some ErrNotFound)"
  by (induction priceList) auto

lemma Price_loop_first:
  "(\<forall>x \<in> set pre. x convert = None) \<Longrightarrow> item convert = Some v \<Longrightarrow>
   Price_loop u convert (pre @ item # post) = (FormatPrice u v convert, None)"
  by (induction pre) auto

lemma Price_loop_error:
  "snd (Price_loop u convert priceList) = Some ErrNotFound \<longleftrightarrow> (\<forall>item \<in> set priceList. item convert = None)"
  by (induction priceList) (auto split: option.splits)

text \<open>
  C8. \<open>Price\<close> asks the client for the resolved name and the lower-cased currency. It
  returns \<open>ErrNotFound\<close> exactly when the client returns a list of which no entry has the
  lower-cased currency, and the price returned with it is \<open>0\<close>. When an entry has the
  currency, the first such entry gives the price, formatted, and no error. When the
  client fails, its error is returned with the price \<open>0\<close>.
\<close>

theorem Price_not_found:
  "((\<exists>p. Price L u s client name convert = Some (p, Some ErrNotFound)) \<longleftrightarrow>
      (\<exists>priceList. SimplePrice client [coinNameToID L u s name] [ToLower L convert] = Inr (Some priceList)
          \<and> (\<forall>item \<in> set priceList. item (ToLower L convert) = None)))
   \<and> (Price L u s client name convert = Some (p, Some ErrNotFound) \<longrightarrow> p = 0)
   \<and> (SimplePrice client [coinNameToID L u s name] [ToLower L convert] = Inr (Some (pre @ item # post))
        \<and> (\<forall>x \<in> set pre. x (ToLower L convert) = None) \<and> item (ToLower L convert) = Some v \<longrightarrow>
      Price L u s client name convert = Some (FormatPrice u v (ToLower L convert), None))
   \<and> (SimplePrice client [coinNameToID L u s name] [ToLower L convert] = Inl e \<longrightarrow>
      Price L u s client name convert = Some (0, Some (ClientError e)))"
proof -
  let ?r = "SimplePrice client [coinNameToID L u s name] [ToLower L convert]"
  have 1: "(\<exists>p. Price L u s client name convert = Some (p, Some ErrNotFound)) \<longleftrightarrow>
      (\<exists>priceList. ?r = Inr (Some priceList) \<and> (\<forall>item \<in> set priceList. item (ToLower L convert) = None))"
  proof (cases ?r)
    case (Inl e)
    then show ?thesis by (simp add: Price_def Let_def)
  next
    case (Inr l)
    show ?thesis
    proof (cases l)
      case None
      with Inr show ?thesis by (simp add: Price_def Let_def)
    next
      case (Some priceList)
      have "(\<exists>p. Price_loop u (ToLower L convert) priceList = (p, Some ErrNotFound)) \<longleftrightarrow>
          snd (Price_loop u (ToLower L convert) priceList) = Some ErrNotFound"
        by (cases "Price_loop u (ToLower L convert) priceList") simp
      with Inr Some show ?thesis by (simp add: Price_def Let_def Price_loop_error)
    qed
  qed
  have 2: "p = 0" if "Price L u s client name convert = Some (p, Some ErrNotFound)"
  proof -
    from that obtain priceList where l: "?r = Inr (Some priceList)"
      and pl: "Price_loop u (ToLower L convert) priceList = (p, Some ErrNotFound)"
      by (auto simp: Price_def Let_def split: sum.splits option.splits)
    from pl have "\<forall>item \<in> set priceList. item (ToLower L convert) = None"
      using Price_loop_error [of u "ToLower L convert" priceList] by simp
    from Price_loop_none [OF this, of u] pl show ?thesis by simp
  qed
  have 3: "Price L u s client name convert = Some (FormatPrice u v (ToLower L convert), None)"
    if "?r = Inr (Some (pre @ item # post))" "\<forall>x \<in> set pre. x (ToLower L convert) = None"
      "item (ToLower L convert) = Some v"
    using that by (simp add: Price_def Let_def Price_loop_first)
  have 4: "Price L u s client name convert = Some (0, Some (ClientError e))" if "?r = Inl e"
    using that by (simp add: Price_def Let_def)
  from 1 2 3 4 show ?thesis by blast
qed

text \<open>
  The price list of the sample client for \<open>bitcoin\<close> has an empty entry, an entry in \<open>eur\<close>
  and two in \<open>usd\<close>: \<open>USD\<close> gives the first price in \<open>usd\<close>, \<open>jpy\<close> is not found, and
  the name \<open>unreachable\<close> gives the client's error.
\<close>

theorem Price_not_found_witness:
  "Price asciiStrings plainUtil (NewCoinGecko asciiStrings plainUtil (pagedClient 0)) (pagedClient 0) ''Bitcoin'' ''USD'' = Some (9000.5, None)
   \<and> Price asciiStrings plainUtil (NewCoinGecko asciiStrings plainUtil (pagedClient 0)) (pagedClient 0) ''Bitcoin'' ''jpy'' = Some (0, Some ErrNotFound)
   \<and> Price asciiStrings plainUtil (NewCoinGecko asciiStrings plainUtil (pagedClient 0)) (pagedClient 0) ''unreachable'' ''usd''
       = Some (0, Some (ClientError ''unreachable''))"
proof -
  let ?s = "NewCoinGecko asciiStrings plainUtil (pagedClient 0)"
  have id: "coinNameToID asciiStrings plainUtil ?s ''Bitcoin'' = ''bitcoin''"
    by code_simp
  have id': "coinNameToID asciiStrings plainUtil ?s ''unreachable'' = ''unreachable''"
    by code_simp
  have lc: "ToLower asciiStrings ''USD'' = ''usd''" "ToLower asciiStrings ''jpy'' = ''jpy''" "ToLower asciiStrings ''usd'' = ''usd''"
    by code_simp+
  have h1: "SimplePrice (pagedClient 0) [coinNameToID asciiStrings plainUtil ?s ''Bitcoin''] [ToLower asciiStrings ''USD'']
      = Inr (Some ([Map.empty, [''eur'' \<mapsto> 8000]] @ [''usd'' \<mapsto> 9000.5] # [[''usd'' \<mapsto> 1]]))
      \<and> (\<forall>x \<in> set [Map.empty, [''eur'' \<mapsto> 8000 :: real]]. x (ToLower asciiStrings ''USD'') = None)
      \<and> [''usd'' \<mapsto> 9000.5 :: real] (ToLower asciiStrings ''USD'') = Some 9000.5"
    unfolding id lc by (simp add: pagedClient_def)
  have h2: "\<exists>priceList. SimplePrice (pagedClient 0) [coinNameToID asciiStrings plainUtil ?s ''Bitcoin''] [ToLower asciiStrings ''jpy'']
      = Inr (Some priceList) \<and> (\<forall>item \<in> set priceList. item (ToLower asciiStrings ''jpy'') = None)"
    unfolding id lc by (simp add: pagedClient_def)
  have h3: "SimplePrice (pagedClient 0) [coinNameToID asciiStrings plainUtil ?s ''unreachable''] [ToLower asciiStrings ''usd''] = Inl ''unreachable''"
    unfolding id' lc by (simp add: pagedClient_def)
  from Price_not_found [of asciiStrings plainUtil ?s "pagedClient 0" "''Bitcoin''" "''USD''" 0
      "[Map.empty, [''eur'' \<mapsto> 8000]]" "[''usd'' \<mapsto> 9000.5]" "[[''usd'' \<mapsto> 1]]" "9000.5"] h1
  have r1: "Price asciiStrings plainUtil ?s (pagedClient 0) ''Bitcoin'' ''USD'' = Some (FormatPrice plainUtil 9000.5 (ToLower asciiStrings ''USD''), None)"
    by blast
  from Price_not_found [of asciiStrings plainUtil ?s "pagedClient 0" "''Bitcoin''" "''jpy''"] h2
  have r2: "\<exists>p. Price asciiStrings plainUtil ?s (pagedClient 0) ''Bitcoin'' ''jpy'' = Some (p, Some ErrNotFound)"
    by blast
  then obtain p where p: "Price asciiStrings plainUtil ?s (pagedClient 0) ''Bitcoin'' ''jpy'' = Some (p, Some ErrNotFound)"
    by blast
  with Price_not_found [of asciiStrings plainUtil ?s "pagedClient 0" "''Bitcoin''" "''jpy''" p] have "p = 0"
    by blast
  with p have r2': "Price asciiStrings plainUtil ?s (pagedClient 0) ''Bitcoin'' ''jpy'' = Some (0, Some ErrNotFound)"
    by simp
  from Price_not_found [of asciiStrings plainUtil ?s "pagedClient 0" "''unreachable''" "''usd''" _ _ _ _ _ "''unreachable''"] h3
  have r3: "Price asciiStrings plainUtil ?s (pagedClient 0) ''unreachable'' ''usd'' = Some (0, Some (ClientError ''unreachable''))"
    by blast
  from r1 r2' r3 show ?thesis by (simp add: plainUtil_def)
qed

section \<open>The streaming fetch\<close>

lemma emitted_append: "emitted (xs @ ys) = emitted xs @ emitted ys"
  by (induction xs rule: emitted.induct) auto

lemma requested_append: "requested (xs @ ys) = requested xs @ requested ys"
  by (induction xs rule: requested.induct) auto

lemma emitted_pageEffects:
  "emitted (concat (map (pageEffects L u s convert batch) js)) = map batch js"
  by (induction js) (auto simp: emitted_append pageEffects_def)

lemma requested_pageEffects:
  "requested (concat (map (pageEffects L u s convert batch) js)) = map (\<lambda>j. marketRequest L u s convert j []) js"
  by (induction js) (auto simp: requested_append pageEffects_def)

lemma rq_page_marketRequest: "rq_page (marketRequest L u s convert j names) = j + 1"
  by (simp add: marketRequest_def Let_def)

lemma pages_upto: "map (\<lambda>j. j + 1) [i..n] = [i + 1..n + 1]"
proof (induction i n rule: upto.induct)
  case (1 i j)
  then show ?case
    by (simp add: upto.simps [of i j] upto.simps [of "i + 1" "j + 1"])
qed

lemma loop_step_ok:
  "i < maxPages s \<Longrightarrow> getPaginatedCoinData L u s client convert i [] = Inr (batch i) \<Longrightarrow>
   GetAllCoinData_loop L u s client convert i =
     pageEffects L u s convert batch i @ GetAllCoinData_loop L u s client convert (i + 1)"
  by (subst GetAllCoinData_loop.simps) (simp add: pageEffects_def)

lemma loop_step_fail:
  "i < maxPages s \<Longrightarrow> getPaginatedCoinData L u s client convert i [] = Inl err \<Longrightarrow>
   GetAllCoinData_loop L u s client convert i =
     (if i > 0 then [Sleep 1] else []) @ [Request (marketRequest L u s convert i []), Close]"
  by (subst GetAllCoinData_loop.simps) simp

lemma loop_step_end:
  "\<not> i < maxPages s \<Longrightarrow> GetAllCoinData_loop L u s client convert i = [Close]"
  by (subst GetAllCoinData_loop.simps) simp

lemma loop_until_failure:
  assumes n: "n < maxPages s"
    and fail: "getPaginatedCoinData L u s client convert n [] = Inl err"
  shows "i \<le> n \<Longrightarrow>
    (\<forall>j. i \<le> j \<and> j < n \<longrightarrow> getPaginatedCoinData L u s client convert j [] = Inr (batch j)) \<Longrightarrow>
    GetAllCoinData_loop L u s client convert i =
      concat (map (pageEffects L u s convert batch) [i..n - 1])
      @ (if n > 0 then [Sleep 1] else []) @ [Request (marketRequest L u s convert n []), Close]"
proof (induction "nat (n - i)" arbitrary: i)
  case 0
  then have "i = n" by simp
  then show ?case using loop_step_fail [OF n fail] by simp
next
  case (Suc k)
  then have lt: "i < n" by linarith
  with n have "i < maxPages s" by simp
  moreover from Suc.prems lt have "getPaginatedCoinData L u s client convert i [] = Inr (batch i)"
    by simp
  ultimately have step: "GetAllCoinData_loop L u s client convert i =
      pageEffects L u s convert batch i @ GetAllCoinData_loop L u s client convert (i + 1)"
    by (rule loop_step_ok)
  have "k = nat (n - (i + 1))" using Suc.hyps(2) by linarith
  moreover have "i + 1 \<le> n" using lt by simp
  moreover have "\<forall>j. i + 1 \<le> j \<and> j < n \<longrightarrow> getPaginatedCoinData L u s client convert j [] = Inr (batch j)"
    using Suc.prems(2) by simp
  ultimately have rest: "GetAllCoinData_loop L u s client convert (i + 1) =
      concat (map (pageEffects L u s convert batch) [i + 1..n - 1])
      @ (if n > 0 then [Sleep 1] else []) @ [Request (marketRequest L u s convert n []), Close]"
    by (rule Suc.hyps(1))
  have "[i..n - 1] = i # [i + 1..n - 1]" using lt by (simp add: upto_rec1)
  with step rest show ?case by simp
qed

lemma loop_complete:
  "(\<forall>j. i \<le> j \<and> j < maxPages s \<longrightarrow> getPaginatedCoinData L u s client convert j [] = Inr (batch j)) \<Longrightarrow>
   GetAllCoinData_loop L u s client convert i =
     concat (map (pageEffects L u s convert batch) [i..maxPages s - 1]) @ [Close]"
proof (induction "nat (maxPages s - i)" arbitrary: i)
  case 0
  then have "\<not> i < maxPages s" by simp
  then show ?case using loop_step_end [of i s L u client convert] by simp
next
  case (Suc k)
  then have lt: "i < maxPages s" by linarith
  moreover from Suc.prems lt have "getPaginatedCoinData L u s client convert i [] = Inr (batch i)"
    by simp
  ultimately have step: "GetAllCoinData_loop L u s client convert i =
      pageEffects L u s convert batch i @ GetAllCoinData_loop L u s client convert (i + 1)"
    by (rule loop_step_ok)
  have "k = nat (maxPages s - (i + 1))" using Suc.hyps(2) by linarith
  moreover have "\<forall>j. i + 1 \<le> j \<and> j < maxPages s \<longrightarrow> getPaginatedCoinData L u s client convert j [] = Inr (batch j)"
    using Suc.prems by simp
  ultimately have rest: "GetAllCoinData_loop L u s client convert (i + 1) =
      concat (map (pageEffects L u s convert batch) [i + 1..maxPages s - 1]) @ [Close]"
    by (rule Suc.hyps(1))
  have "[i..maxPages s - 1] = i # [i + 1..maxPages s - 1]" using lt by (simp add: upto_rec1)
  with step rest show ?case by simp
qed

lemma loop_ends_with_Close:
  "GetAllCoinData_loop L u s client convert i \<noteq> [] \<and> last (GetAllCoinData_loop L u s client convert i) = Close"
proof (induction L u s client convert i rule: GetAllCoinData_loop.induct)
  case (1 L u s client convert i)
  show ?case
  proof (cases "i < maxPages s")
    case False
    then show ?thesis using loop_step_end [of i s L u client convert] by simp
  next
    case True
    show ?thesis
    proof (cases "getPaginatedCoinData L u s client convert i []")
      case (Inl err)
      from loop_step_fail [OF True Inl] show ?thesis by simp
    next
      case (Inr coins)
      from "1.IH" [OF True Inr] loop_step_ok [OF True, of L u client convert "\<lambda>_. coins"] Inr
      show ?thesis by (simp add: pageEffects_def)
    qed
  qed
qed

text \<open>
  C1. Let the loop index \<open>n\<close> be below \<open>maxPages\<close>, so that the page \<open>n + 1\<close> is asked for,
  let the fetches of the indices below \<open>n\<close> succeed with the batches \<open>batch j\<close>, and let
  the fetch of index \<open>n\<close> fail. Then the goroutine does this and nothing else: for each
  index below \<open>n\<close>, in ascending order, it pauses (not in the first round), requests the
  page and sends the batch; then it pauses, requests the page \<open>n + 1\<close> once, and closes
  the channel. The batches sent are the \<open>n\<close> batches fetched, as they were fetched, and
  the pages requested are \<open>1\<close> to \<open>n + 1\<close>. The channel carries batches only, so no error
  goes through it.
\<close>

theorem partial_stream_failure:
  assumes "0 \<le> n" and "n < maxPages s"
    and "\<forall>j. 0 \<le> j \<and> j < n \<longrightarrow> getPaginatedCoinData L u s client convert j [] = Inr (batch j)"
    and "getPaginatedCoinData L u s client convert n [] = Inl err"
  shows "snd (GetAllCoinData L u s client convert) =
           concat (map (pageEffects L u s convert batch) [0..n - 1])
           @ (if n > 0 then [Sleep 1] else []) @ [Request (marketRequest L u s convert n []), Close]
       \<and> emitted (snd (GetAllCoinData L u s client convert)) = map batch [0..n - 1]
       \<and> length (emitted (snd (GetAllCoinData L u s client convert))) = nat n
       \<and> map rq_page (requested (snd (GetAllCoinData L u s client convert))) = [1..n + 1]"
proof -
  have tr: "snd (GetAllCoinData L u s client convert) =
           concat (map (pageEffects L u s convert batch) [0..n - 1])
           @ (if n > 0 then [Sleep 1] else []) @ [Request (marketRequest L u s convert n []), Close]"
    using loop_until_failure [OF assms(2) assms(4) assms(1) assms(3)] by (simp add: GetAllCoinData_def)
  have em: "emitted (snd (GetAllCoinData L u s client convert)) = map batch [0..n - 1]"
    by (simp add: tr emitted_append emitted_pageEffects)
  have "requested (snd (GetAllCoinData L u s client convert)) =
      map (\<lambda>j. marketRequest L u s convert j []) ([0..n - 1] @ [n])"
    by (simp add: tr requested_append requested_pageEffects)
  moreover have "[0..n - 1] @ [n] = [0..n]"
    using assms(1) upto_rec2 [of 0 n] by simp
  ultimately have rq: "map rq_page (requested (snd (GetAllCoinData L u s client convert))) = [1..n + 1]"
    using pages_upto [of 0 n] by (simp add: rq_page_marketRequest comp_def)
  from tr em rq assms(1) show ?thesis by simp
qed

lemma NewCoinGecko_limits:
  "maxPages (NewCoinGecko L u client) = 10 \<and> maxResultsPerPage (NewCoinGecko L u client) = 250"
  by (simp add: NewCoinGecko_def cacheCoinsIDList_def Let_def split: sum.splits option.splits)

lemma upto_0_1: "[0..1] = [0, 1]"
  by (simp add: upto.simps)

lemma upto_0_9: "[0..9] = [0, 1, 2, 3, 4, 5, 6, 7, 8, 9]"
  by (simp add: upto.simps)

lemma upto_1_3: "[1..3] = [1, 2, 3]"
  by (simp add: upto.simps)

lemma upto_1_10: "[1..10] = [1, 2, 3, 4, 5, 6, 7, 8, 9, 10]"
  by (simp add: upto.simps)

lemma pagedClient_page:
  "j + 1 \<noteq> failPage \<Longrightarrow>
   getPaginatedCoinData L plainUtil s (pagedClient failPage) convert j [] =
     Inr [normalizeItem plainUtil convert (sampleItem\<lparr>mk_MarketCapRank := j + 1\<rparr>)]"
  by (simp add: getPaginatedCoinData_def pagedClient_def marketRequest_def Let_def)

lemma pagedClient_fail:
  "getPaginatedCoinData L plainUtil s (pagedClient (j + 1)) convert j [] = Inl (ClientError ''unreachable'')"
  by (simp add: getPaginatedCoinData_def pagedClient_def marketRequest_def Let_def)

text \<open>
  The client that fails on page \<open>3\<close>: two batches are sent, with a pause between them,
  then the third page is requested after a pause and the channel is closed.
\<close>

theorem partial_stream_failure_witness:
  "(0::int) \<le> 2 \<and> 2 < maxPages (NewCoinGecko asciiStrings plainUtil (pagedClient 3))
   \<and> map (\<lambda>j. getPaginatedCoinData asciiStrings plainUtil (NewCoinGecko asciiStrings plainUtil (pagedClient 3)) (pagedClient 3) ''usd'' j []) [0, 1]
       = map (\<lambda>j. Inr [normalizeItem plainUtil ''usd'' (sampleItem\<lparr>mk_MarketCapRank := j + 1\<rparr>)]) [0, 1]
   \<and> getPaginatedCoinData asciiStrings plainUtil (NewCoinGecko asciiStrings plainUtil (pagedClient 3)) (pagedClient 3) ''usd'' 2 []
        = Inl (ClientError ''unreachable'')
   \<and> snd (GetAllCoinData asciiStrings plainUtil (NewCoinGecko asciiStrings plainUtil (pagedClient 3)) (pagedClient 3) ''usd'') =
       [Request (marketRequest asciiStrings plainUtil (NewCoinGecko asciiStrings plainUtil (pagedClient 3)) ''usd'' 0 []),
        Emit [normalizeItem plainUtil ''usd'' (sampleItem\<lparr>mk_MarketCapRank := 1\<rparr>)],
        Sleep 1,
        Request (marketRequest asciiStrings plainUtil (NewCoinGecko asciiStrings plainUtil (pagedClient 3)) ''usd'' 1 []),
        Emit [normalizeItem plainUtil ''usd'' (sampleItem\<lparr>mk_MarketCapRank := 2\<rparr>)],
        Sleep 1,
        Request (marketRequest asciiStrings plainUtil (NewCoinGecko asciiStrings plainUtil (pagedClient 3)) ''usd'' 2 []),
        Close]
   \<and> length (emitted (snd (GetAllCoinData asciiStrings plainUtil (NewCoinGecko asciiStrings plainUtil (pagedClient 3)) (pagedClient 3) ''usd''))) = 2
   \<and> map rq_page (requested (snd (GetAllCoinData asciiStrings plainUtil (NewCoinGecko asciiStrings plainUtil (pagedClient 3)) (pagedClient 3) ''usd'')))
       = [1, 2, 3]"
proof -
  let ?s = "NewCoinGecko asciiStrings plainUtil (pagedClient 3)"
  let ?batch = "\<lambda>j. [normalizeItem plainUtil ''usd'' (sampleItem\<lparr>mk_MarketCapRank := j + 1\<rparr>)]"
  have h1: "(0::int) \<le> 2" by simp
  have h2: "2 < maxPages ?s" by (simp add: NewCoinGecko_limits)
  have h3: "\<forall>j. 0 \<le> j \<and> j < 2 \<longrightarrow>
      getPaginatedCoinData asciiStrings plainUtil ?s (pagedClient 3) ''usd'' j [] = Inr (?batch j)"
    by (simp add: pagedClient_page)
  have h4: "getPaginatedCoinData asciiStrings plainUtil ?s (pagedClient 3) ''usd'' 2 [] = Inl (ClientError ''unreachable'')"
    using pagedClient_fail [of asciiStrings ?s 2 "''usd''"] by simp
  note T = partial_stream_failure [OF h1 h2 h3 h4]
  have tr: "snd (GetAllCoinData asciiStrings plainUtil ?s (pagedClient 3) ''usd'') =
       [Request (marketRequest asciiStrings plainUtil ?s ''usd'' 0 []), Emit (?batch 0), Sleep 1,
        Request (marketRequest asciiStrings plainUtil ?s ''usd'' 1 []), Emit (?batch 1), Sleep 1,
        Request (marketRequest asciiStrings plainUtil ?s ''usd'' 2 []), Close]"
    using T [THEN conjunct1] by (simp add: pageEffects_def upto_0_1)
  have len: "length (emitted (snd (GetAllCoinData asciiStrings plainUtil ?s (pagedClient 3) ''usd''))) = 2"
    using T [THEN conjunct2, THEN conjunct2, THEN conjunct1] by simp
  have rq: "map rq_page (requested (snd (GetAllCoinData asciiStrings plainUtil ?s (pagedClient 3) ''usd''))) = [1, 2, 3]"
    using T [THEN conjunct2, THEN conjunct2, THEN conjunct2] by (simp add: upto_1_3)
  have tr': "snd (GetAllCoinData asciiStrings plainUtil ?s (pagedClient 3) ''usd'') =
       [Request (marketRequest asciiStrings plainUtil ?s ''usd'' 0 []),
        Emit [normalizeItem plainUtil ''usd'' (sampleItem\<lparr>mk_MarketCapRank := 1\<rparr>)],
        Sleep 1,
        Request (marketRequest asciiStrings plainUtil ?s ''usd'' 1 []),
        Emit [normalizeItem plainUtil ''usd'' (sampleItem\<lparr>mk_MarketCapRank := 2\<rparr>)],
        Sleep 1,
        Request (marketRequest asciiStrings plainUtil ?s ''usd'' 2 []),
        Close]"
    by (simp add: tr)
  have h3': "map (\<lambda>j. getPaginatedCoinData asciiStrings plainUtil ?s (pagedClient 3) ''usd'' j []) [0, 1]
       = map (\<lambda>j. Inr (?batch j)) [0, 1]"
    using h3 by simp
  show ?thesis
    by (intro conjI h1 h2 h3' h4 tr' len rq)
qed

text \<open>
  C4. The service made by \<open>NewCoinGecko\<close> has \<open>maxPages = 10\<close> and \<open>maxResultsPerPage = 250\<close>.
  When the ten page fetches succeed, with the batches \<open>batch j\<close>, the goroutine does this
  and nothing else: for the indices \<open>0\<close> to \<open>9\<close> in ascending order it pauses one second
  (not before the first request), requests the page \<open>j + 1\<close> with page size \<open>250\<close>, and
  sends the batch; then it closes the channel. Ten batches are sent and the pages
  requested are \<open>1\<close> to \<open>10\<close>. Each request is made after the batch of the one before
  has been sent.
\<close>

theorem ceiling_stream:
  assumes "\<forall>j. 0 \<le> j \<and> j < 10 \<longrightarrow>
             getPaginatedCoinData L u (NewCoinGecko L u client) client convert j [] = Inr (batch j)"
  shows "snd (GetAllCoinData L u (NewCoinGecko L u client) client convert) =
           concat (map (\<lambda>j. (if j > 0 then [Sleep 1] else [])
                         @ [Request \<lparr>rq_vsCurrency = (if ToLower L convert = [] then ''usd'' else ToLower L convert),
                                     rq_ids = [], rq_order = MarketCapDesc, rq_perPage = 250,
                                     rq_page = j + 1, rq_sparkline = False,
                                     rq_priceChangePercentage = [PCP1h, PCP24h, PCP7d, PCP30d]\<rparr>,
                            Emit (batch j)]) [0..9])
           @ [Close]
       \<and> emitted (snd (GetAllCoinData L u (NewCoinGecko L u client) client convert)) = map batch [0..9]
       \<and> length (emitted (snd (GetAllCoinData L u (NewCoinGecko L u client) client convert))) = 10
       \<and> map rq_page (requested (snd (GetAllCoinData L u (NewCoinGecko L u client) client convert))) = [1..10]"
proof -
  let ?s = "NewCoinGecko L u client"
  have lim: "maxPages ?s = 10" "maxResultsPerPage ?s = 250"
    by (simp_all add: NewCoinGecko_limits)
  have "\<forall>j. 0 \<le> j \<and> j < maxPages ?s \<longrightarrow> getPaginatedCoinData L u ?s client convert j [] = Inr (batch j)"
    using assms by (simp add: lim)
  from loop_complete [OF this]
  have tr: "snd (GetAllCoinData L u ?s client convert) =
      concat (map (pageEffects L u ?s convert batch) [0..9]) @ [Close]"
    by (simp add: GetAllCoinData_def lim)
  have eff: "pageEffects L u ?s convert batch =
      (\<lambda>j. (if j > 0 then [Sleep 1] else [])
                         @ [Request \<lparr>rq_vsCurrency = (if ToLower L convert = [] then ''usd'' else ToLower L convert),
                                     rq_ids = [], rq_order = MarketCapDesc, rq_perPage = 250,
                                     rq_page = j + 1, rq_sparkline = False,
                                     rq_priceChangePercentage = [PCP1h, PCP24h, PCP7d, PCP30d]\<rparr>,
                            Emit (batch j)])"
    by (rule ext) (simp add: pageEffects_def marketRequest_def Let_def lim)
  have em: "emitted (snd (GetAllCoinData L u ?s client convert)) = map batch [0..9]"
    by (simp add: tr emitted_append emitted_pageEffects)
  have "requested (snd (GetAllCoinData L u ?s client convert)) =
      map (\<lambda>j. marketRequest L u ?s convert j []) [0..9]"
    by (simp add: tr requested_append requested_pageEffects)
  then have rq: "map rq_page (requested (snd (GetAllCoinData L u ?s client convert))) = [1..10]"
    using pages_upto [of 0 9] by (simp add: comp_def rq_page_marketRequest)
  have len: "length (emitted (snd (GetAllCoinData L u ?s client convert))) = 10"
    by (simp add: em)
  from tr eff em len rq show ?thesis by simp
qed

text \<open>The client that never fails on a page from \<open>1\<close> on: ten batches, pages \<open>1\<close> to \<open>10\<close>.\<close>

theorem ceiling_stream_witness:
  "map (\<lambda>j. getPaginatedCoinData asciiStrings plainUtil (NewCoinGecko asciiStrings plainUtil (pagedClient 0)) (pagedClient 0) ''USD'' j [])
       [0, 1, 2, 3, 4, 5, 6, 7, 8, 9]
     = map (\<lambda>j. Inr [normalizeItem plainUtil ''USD'' (sampleItem\<lparr>mk_MarketCapRank := j + 1\<rparr>)])
       [0, 1, 2, 3, 4, 5, 6, 7, 8, 9]
   \<and> length (emitted (snd (GetAllCoinData asciiStrings plainUtil (NewCoinGecko asciiStrings plainUtil (pagedClient 0)) (pagedClient 0) ''USD''))) = 10
   \<and> map rq_page (requested (snd (GetAllCoinData asciiStrings plainUtil (NewCoinGecko asciiStrings plainUtil (pagedClient 0)) (pagedClient 0) ''USD'')))
       = [1, 2, 3, 4, 5, 6, 7, 8, 9, 10]
   \<and> map rq_perPage (requested (snd (GetAllCoinData asciiStrings plainUtil (NewCoinGecko asciiStrings plainUtil (pagedClient 0)) (pagedClient 0) ''USD'')))
       = [250, 250, 250, 250, 250, 250, 250, 250, 250, 250]
   \<and> last (snd (GetAllCoinData asciiStrings plainUtil (NewCoinGecko asciiStrings plainUtil (pagedClient 0)) (pagedClient 0) ''USD'')) = Close"
proof -
  let ?s = "NewCoinGecko asciiStrings plainUtil (pagedClient 0)"
  let ?batch = "\<lambda>j. [normalizeItem plainUtil ''USD'' (sampleItem\<lparr>mk_MarketCapRank := j + 1\<rparr>)]"
  have h: "\<forall>j. 0 \<le> j \<and> j < 10 \<longrightarrow>
      getPaginatedCoinData asciiStrings plainUtil ?s (pagedClient 0) ''USD'' j [] = Inr (?batch j)"
    by (simp add: pagedClient_page)
  note T = ceiling_stream [OF h]
  from T have tr: "snd (GetAllCoinData asciiStrings plainUtil ?s (pagedClient 0) ''USD'') =
           concat (map (\<lambda>j. (if j > 0 then [Sleep 1] else [])
                         @ [Request \<lparr>rq_vsCurrency = (if ToLower asciiStrings ''USD'' = [] then ''usd'' else ToLower asciiStrings ''USD''),
                                     rq_ids = [], rq_order = MarketCapDesc, rq_perPage = 250,
                                     rq_page = j + 1, rq_sparkline = False,
                                     rq_priceChangePercentage = [PCP1h, PCP24h, PCP7d, PCP30d]\<rparr>,
                            Emit (?batch j)]) [0..9])
           @ [Close]"
    by blast
  from T have len: "length (emitted (snd (GetAllCoinData asciiStrings plainUtil ?s (pagedClient 0) ''USD''))) = 10"
    by blast
  from T have rq: "map rq_page (requested (snd (GetAllCoinData asciiStrings plainUtil ?s (pagedClient 0) ''USD''))) = [1..10]"
    by blast
  have pp: "map rq_perPage (requested (snd (GetAllCoinData asciiStrings plainUtil ?s (pagedClient 0) ''USD'')))
       = [250, 250, 250, 250, 250, 250, 250, 250, 250, 250]"
    by (simp add: tr upto_0_9 requested_append)
  have cl: "last (snd (GetAllCoinData asciiStrings plainUtil ?s (pagedClient 0) ''USD'')) = Close"
    by (simp add: tr)
  have h': "map (\<lambda>j. getPaginatedCoinData asciiStrings plainUtil ?s (pagedClient 0) ''USD'' j []) [0, 1, 2, 3, 4, 5, 6, 7, 8, 9]
     = map (\<lambda>j. Inr (?batch j)) [0, 1, 2, 3, 4, 5, 6, 7, 8, 9]"
    using h by simp
  have rq': "map rq_page (requested (snd (GetAllCoinData asciiStrings plainUtil ?s (pagedClient 0) ''USD'')))
       = [1, 2, 3, 4, 5, 6, 7, 8, 9, 10]"
    using rq by (simp add: upto_1_10)
  show ?thesis
    by (intro conjI h' len rq' pp cl)
qed

text \<open>
  C9. \<open>GetAllCoinData\<close> returns \<open>nil\<close> whatever the service, the client and the currency
  are. The goroutine it starts always ends by closing the channel. When the first page
  fetch fails, the goroutine requests that page and closes the channel, and the value
  returned is \<open>nil\<close> all the same: the failure shows in the closed channel only.
\<close>

theorem GetAllCoinData_returns_nil:
  "fst (GetAllCoinData L u s client convert) = None
   \<and> snd (GetAllCoinData L u s client convert) \<noteq> []
   \<and> last (snd (GetAllCoinData L u s client convert)) = Close
   \<and> (0 < maxPages s \<and> getPaginatedCoinData L u s client convert 0 [] = Inl err \<longrightarrow>
        snd (GetAllCoinData L u s client convert) = [Request (marketRequest L u s convert 0 []), Close])"
proof -
  have 1: "fst (GetAllCoinData L u s client convert) = None"
    by (simp add: GetAllCoinData_def)
  have 2: "snd (GetAllCoinData L u s client convert) \<noteq> []
      \<and> last (snd (GetAllCoinData L u s client convert)) = Close"
    using loop_ends_with_Close [of L u s client convert 0] by (simp add: GetAllCoinData_def)
  have 3: "snd (GetAllCoinData L u s client convert) = [Request (marketRequest L u s convert 0 []), Close]"
    if "0 < maxPages s" "getPaginatedCoinData L u s client convert 0 [] = Inl err"
    using loop_step_fail [OF that] by (simp add: GetAllCoinData_def)
  from 1 2 3 show ?thesis by blast
qed

text \<open>The client that fails on the first page: one request, the closed channel, \<open>nil\<close>.\<close>

theorem GetAllCoinData_returns_nil_witness:
  "0 < maxPages (NewCoinGecko asciiStrings plainUtil (pagedClient 1))
   \<and> getPaginatedCoinData asciiStrings plainUtil (NewCoinGecko asciiStrings plainUtil (pagedClient 1)) (pagedClient 1) ''usd'' 0 []
       = Inl (ClientError ''unreachable'')
   \<and> fst (GetAllCoinData asciiStrings plainUtil (NewCoinGecko asciiStrings plainUtil (pagedClient 1)) (pagedClient 1) ''usd'') = None
   \<and> snd (GetAllCoinData asciiStrings plainUtil (NewCoinGecko asciiStrings plainUtil (pagedClient 1)) (pagedClient 1) ''usd'')
       = [Request (marketRequest asciiStrings plainUtil (NewCoinGecko asciiStrings plainUtil (pagedClient 1)) ''usd'' 0 []), Close]"
proof -
  let ?s = "NewCoinGecko asciiStrings plainUtil (pagedClient 1)"
  have h1: "0 < maxPages ?s" by (simp add: NewCoinGecko_limits)
  have h2: "getPaginatedCoinData asciiStrings plainUtil ?s (pagedClient 1) ''usd'' 0 [] = Inl (ClientError ''unreachable'')"
    using pagedClient_fail [of asciiStrings ?s 0 "''usd''"] by simp
  note T = GetAllCoinData_returns_nil [of asciiStrings plainUtil ?s "pagedClient 1" "''usd''" "ClientError ''unreachable''"]
  from T have r1: "fst (GetAllCoinData asciiStrings plainUtil ?s (pagedClient 1) ''usd'') = None"
    by blast
  from T h1 h2 have r2: "snd (GetAllCoinData asciiStrings plainUtil ?s (pagedClient 1) ''usd'')
       = [Request (marketRequest asciiStrings plainUtil ?s ''usd'' 0 []), Close]"
    by blast
  show ?thesis
    by (intro conjI h1 h2 r1 r2)
qed

section \<open>The currency of a page fetch\<close>





end
